theory Spec2Isabelle
  imports
    Main
    "HOL-Library.Sublist"
    "HOL-Library.List_Lexorder"
    "HOL-Library.Char_ord"
    "HOL-Library.Option_ord"
begin

section \<open>Data model of backend/server.js\<close>

text \<open>
  The server is an Express application over three Mongoose collections and one upstream
  HTTP client. Every route is modelled as a function of an environment (what the route
  cannot decide itself: the upstream answers, the clock, the identifiers the database
  hands out, whether a database call throws) and of the state (the three collections and
  the log of upstream requests made so far); it returns the JSON envelope it sends and
  the new state.

  A value read from JSON may be absent: a String field is a \<open>string option\<close>, with
  \<open>None\<close> for \<open>undefined\<close>. The upstream JSON is taken at the shape the code reads: a
  body with \<open>status\<close> and, when it is there, a \<open>response\<close> object, whose lists are
  arrays of objects. A string is the list of its bytes.
\<close>

type_synonym jsstring = "string option"
type_synonym objid = string \<comment> \<open>an ObjectId, as its 24 lower-case hexadecimal digits\<close>

subsection \<open>What the upstream sends\<close>

record upstreamTeam =
  ut_id :: jsstring
  ut_name :: jsstring
  ut_shortName :: jsstring
  ut_abbrev :: jsstring
  ut_logo :: jsstring
  ut_logoDark :: jsstring
  ut_href :: jsstring

record teamRef =
  tr_id :: jsstring
  tr_name :: jsstring

record upstreamPlayer =
  up_id :: jsstring
  up_name :: jsstring
  up_displayName :: jsstring
  up_shortName :: jsstring
  up_team :: "teamRef option"
  up_position :: jsstring
  up_jersey :: jsstring
  up_image :: jsstring
  up_headshot :: jsstring

record upstreamSide =
  us_id :: jsstring
  us_name :: jsstring
  us_abbrev :: jsstring
  us_logo :: jsstring
  us_score :: "int option"

record upstreamGame =
  ug_id :: jsstring
  ug_date :: jsstring
  ug_dateFormatted :: jsstring
  ug_status :: jsstring
  ug_homeTeam :: "upstreamSide option"
  ug_awayTeam :: "upstreamSide option"
  ug_venue :: jsstring

text \<open>\<open>response.data.response\<close>: the keys the routes read from it.\<close>

record payload =
  teamList :: "upstreamTeam list option"
  playerList :: "upstreamPlayer list option"
  gameList :: "upstreamGame list option"

text \<open>
  \<open>response.data\<close> of the HTTP client, when it is there; its \<open>response\<close> key may be
  missing.
\<close>

record apiBody =
  status :: string
  response :: "payload option"

text \<open>
  \<open>rapidApiAxios.get\<close> either rejects with an error, of which the code reads the
  message, or resolves with a response whose \<open>data\<close> may be empty.
\<close>

datatype axiosResult = Rejected string | Resolved "apiBody option"

subsection \<open>What the collections hold\<close>

text \<open>The fields of \<open>playerSchema\<close>, \<open>teamSchema\<close> and \<open>gameSchema\<close> that a route writes.\<close>

record playerDoc =
  p_apiPlayerId :: jsstring
  p_name :: jsstring
  p_displayName :: jsstring
  p_shortName :: jsstring
  p_team :: jsstring
  p_teamId :: jsstring
  p_position :: jsstring
  p_jersey :: jsstring
  p_image :: jsstring
  p_imageUrl :: jsstring
  p_points :: int
  p_assists :: int
  p_rebounds :: int

record teamDoc =
  t_apiTeamId :: jsstring
  t_name :: jsstring
  t_shortName :: jsstring
  t_abbrev :: jsstring
  t_logo :: jsstring
  t_logoDark :: jsstring
  t_href :: jsstring
  t_conference :: jsstring
  t_division :: jsstring
  t_wins :: int
  t_losses :: int

record sideDoc =
  s_id :: jsstring
  s_name :: jsstring
  s_abbrev :: jsstring
  s_logo :: jsstring
  s_score :: int

record gameDoc =
  g_apiGameId :: jsstring
  g_date :: "int option"
  g_dateFormatted :: jsstring
  g_status :: jsstring
  g_homeTeam :: sideDoc
  g_awayTeam :: sideDoc
  g_venue :: jsstring

text \<open>
  A stored document: the fields written, the \<open>_id\<close> the database gives it, and
  \<open>lastUpdated\<close>, which every schema defaults to \<open>Date.now\<close>.
\<close>

record 'a stored =
  oid :: objid
  doc :: 'a
  lastUpdated :: int

record state =
  players :: "playerDoc stored list"
  teams :: "teamDoc stored list"
  games :: "gameDoc stored list"
  requests :: "string list"

subsection \<open>The environment\<close>

text \<open>
  \<open>httpGet\<close> is the upstream, a fixed answer per endpoint. \<open>nowISO\<close> is
  \<open>new Date().toISOString()\<close>; \<open>dateNow i\<close> and \<open>newObjectId i\<close> are the
  \<open>Date.now\<close> default and the \<open>_id\<close> of the \<open>i\<close>-th document of a bulk insert;
  \<open>parseDate\<close> is \<open>new Date(x)\<close> on a string (\<open>None\<close> for an invalid date). The
  database is down for a kind of call when its error is \<open>Some\<close> message. \<open>rand\<close> feeds
  \<open>$sample\<close>. The regular-expression engine of the database is consulted outside the
  fragment modelled below: \<open>regexRefuses\<close> is its refusal of a pattern, \<open>regexMatches\<close>
  its answer for a pattern and a subject. The three texts are the messages of the errors
  the runtime and the driver raise: reading a key of \<open>undefined\<close>, casting a value to
  an ObjectId, validating a document with an invalid date.
\<close>

record env =
  httpGet :: "string \<Rightarrow> axiosResult"
  nowISO :: string
  dateNow :: "nat \<Rightarrow> int"
  newObjectId :: "nat \<Rightarrow> objid"
  parseDate :: "string \<Rightarrow> int option"
  dbFindErr :: "string option"
  dbDeleteErr :: "string option"
  dbInsertErr :: "string option"
  rand :: "nat \<Rightarrow> nat"
  regexRefuses :: "string \<Rightarrow> string option"
  regexMatches :: "string \<Rightarrow> string \<Rightarrow> bool"
  typeErrorText :: "string \<Rightarrow> string"
  castErrorText :: "string \<Rightarrow> string"
  validationErrorText :: string

subsection \<open>The response envelope\<close>

record breakdownDoc =
  Atlantic :: nat
  Central :: nat
  Southeast :: nat
  Northwest :: nat
  Pacific :: nat
  Southwest :: nat

text \<open>
  \<open>{success, count?, message?, data | error, breakdown?}\<close> with the HTTP status it is
  sent under; a key the route does not write is \<open>None\<close>.
\<close>

record 'd envelope =
  httpStatus :: nat
  success :: bool
  message :: "string option"
  count :: "nat option"
  data :: "'d option"
  error :: "string option"
  breakdown :: "breakdownDoc option"

definition respond :: "nat \<Rightarrow> bool \<Rightarrow> 'd envelope" where
  "respond st ok =
     \<lparr>httpStatus = st, success = ok, message = None, count = None, data = None,
      error = None, breakdown = None\<rparr>"

text \<open>The catch block of a route: status 500 with the route's message and the error's.\<close>

definition caught :: "string \<Rightarrow> string \<Rightarrow> 'd envelope" where
  "caught msg e = (respond 500 False)\<lparr>message := Some msg, error := Some e\<rparr>"

text \<open>The length of a list inside a template literal, in decimal.\<close>

definition digit :: "nat \<Rightarrow> char" where
  "digit d = ''0123456789'' ! d"

fun string_of_nat :: "nat \<Rightarrow> string" where
  "string_of_nat n =
     (if n < 10 then [digit n] else string_of_nat (n div 10) @ [digit (n mod 10)])"

declare string_of_nat.simps [simp del]

section \<open>Upstream client\<close>

text \<open>
  The body of \<open>fetchFromRapidAPI\<close> after the request: a rejected request rethrows its
  error, a body with status \<open>success\<close> gives its \<open>response\<close> (\<open>undefined\<close> when the
  key is missing), anything else throws \<open>Invalid API response\<close>.
\<close>

definition unwrap :: "axiosResult \<Rightarrow> string + payload option" where
  "unwrap r =
     (case r of
        Rejected m \<Rightarrow> Inl m
      | Resolved None \<Rightarrow> Inl ''Invalid API response''
      | Resolved (Some b) \<Rightarrow>
          if status b = ''success'' then Inr (response b) else Inl ''Invalid API response'')"

definition fetchFromRapidAPI ::
  "env \<Rightarrow> string \<Rightarrow> state \<Rightarrow> (string + payload option) \<times> state" where
  "fetchFromRapidAPI e endpoint s =
     (unwrap (httpGet e endpoint), s\<lparr>requests := requests s @ [endpoint]\<rparr>)"

section \<open>Collection store\<close>

text \<open>
  The Mongoose calls the routes make. A call that throws changes nothing. \<open>find\<close> gives
  the documents in insertion order; the order \<open>sort\<close> gives to equal keys is not
  fixed by the database, here it is the stable one.
\<close>

text \<open>
  The lower-case letter of an ASCII upper-case letter; any other byte is left alone.
\<close>

definition lower_ascii :: "char \<Rightarrow> char" where
  "lower_ascii c =
     (case map_of (zip ''ABCDEFGHIJKLMNOPQRSTUVWXYZ'' ''abcdefghijklmnopqrstuvwxyz'') c of
        Some l \<Rightarrow> l
      | None \<Rightarrow> c)"

text \<open>
  The cast of a route parameter to an ObjectId: a string of 24 hexadecimal digits is one,
  whatever the case of its digits; any other string is refused.
\<close>

definition hex_digit :: "char \<Rightarrow> bool" where
  "hex_digit c = (c \<in> set ''0123456789abcdefABCDEF'')"

definition castObjectId :: "string \<Rightarrow> objid option" where
  "castObjectId i =
     (if length i = 24 \<and> list_all hex_digit i then Some (map lower_ascii i) else None)"

text \<open>\<open>$sample\<close>: up to \<open>n\<close> documents drawn without replacement, by the random source.\<close>

fun sample :: "(nat \<Rightarrow> nat) \<Rightarrow> nat \<Rightarrow> nat \<Rightarrow> 'a list \<Rightarrow> 'a list" where
  "sample r i 0 xs = []"
| "sample r i (Suc n) [] = []"
| "sample r i (Suc n) (x # xs) =
     (let j = r i mod length (x # xs)
      in (x # xs) ! j # sample r (Suc i) n (take j (x # xs) @ drop (Suc j) (x # xs)))"

definition dbFind :: "env \<Rightarrow> ('a stored \<Rightarrow> bool) \<Rightarrow> 'a stored list \<Rightarrow> string + 'a stored list" where
  "dbFind e cond coll = (case dbFindErr e of Some m \<Rightarrow> Inl m | None \<Rightarrow> Inr (filter cond coll))"

definition aggregate_sample :: "env \<Rightarrow> nat \<Rightarrow> 'a stored list \<Rightarrow> string + 'a stored list" where
  "aggregate_sample e n coll =
     (case dbFindErr e of Some m \<Rightarrow> Inl m | None \<Rightarrow> Inr (sample (rand e) 0 n coll))"

definition findById :: "env \<Rightarrow> string \<Rightarrow> 'a stored list \<Rightarrow> string + 'a stored option" where
  "findById e i coll =
     (case castObjectId i of
        None \<Rightarrow> Inl (castErrorText e i)
      | Some k \<Rightarrow>
          (case dbFindErr e of
             Some m \<Rightarrow> Inl m
           | None \<Rightarrow> Inr (find (\<lambda>d. oid d = k) coll)))"

definition deleteMany :: "env \<Rightarrow> 'a stored list \<Rightarrow> string + 'a stored list" where
  "deleteMany e coll = (case dbDeleteErr e of Some m \<Rightarrow> Inl m | None \<Rightarrow> Inr [])"

definition stamp :: "env \<Rightarrow> nat \<times> 'a \<Rightarrow> 'a stored" where
  "stamp e p = \<lparr>oid = newObjectId e (fst p), doc = snd p, lastUpdated = dateNow e (fst p)\<rparr>"

text \<open>
  \<open>insertMany\<close> validates every document against the schema before it writes any: when
  one is refused, nothing is inserted and the call throws. \<open>valid\<close> is the schema's
  verdict on a document.
\<close>

definition insertMany ::
  "env \<Rightarrow> ('a \<Rightarrow> bool) \<Rightarrow> 'a list \<Rightarrow> 'a stored list \<Rightarrow> string + 'a stored list" where
  "insertMany e valid docs coll =
     (if \<not> list_all valid docs then Inl (validationErrorText e)
      else (case dbInsertErr e of
              Some m \<Rightarrow> Inl m
            | None \<Rightarrow> Inr (coll @ map (stamp e) (enumerate 0 docs))))"

subsection \<open>Regular expressions of the search\<close>

text \<open>
  \<open>{$regex: q, $options: 'i'}\<close> takes the query as a regular expression, matched without
  anchoring and without regard to case. What is modelled here is the matching of a
  pattern of ASCII literal characters and dots against an ASCII subject: a literal matches
  itself up to the case of the letters, a dot any character but a line feed. A pattern
  with another metacharacter or a non-ASCII byte, and any subject with a non-ASCII byte,
  goes to the engine of the environment.
\<close>

datatype atom = Lit char | AnyChar

definition metachars :: "char list" where
  "metachars = CHR 0x5C # ''^$.|?*+()[]{}''"

definition ascii_char :: "char \<Rightarrow> bool" where
  "ascii_char c = ((of_char c :: nat) < 128)"

definition ascii :: "string \<Rightarrow> bool" where
  "ascii x = list_all ascii_char x"

fun atom_of :: "char \<Rightarrow> atom option" where
  "atom_of c =
     (if c = CHR ''.'' then Some AnyChar
      else if c \<in> set metachars \<or> \<not> ascii_char c then None
      else Some (Lit c))"

fun compile :: "string \<Rightarrow> atom list option" where
  "compile [] = Some []"
| "compile (c # cs) =
     (case atom_of c of
        None \<Rightarrow> None
      | Some a \<Rightarrow> (case compile cs of None \<Rightarrow> None | Some as \<Rightarrow> Some (a # as)))"

fun atom_matches :: "atom \<Rightarrow> char \<Rightarrow> bool" where
  "atom_matches (Lit c) d = (lower_ascii c = lower_ascii d)"
| "atom_matches AnyChar d = (d \<noteq> CHR 0x0A)"

fun match_here :: "atom list \<Rightarrow> string \<Rightarrow> bool" where
  "match_here [] s = True"
| "match_here (a # as) [] = False"
| "match_here (a # as) (d # s) = (atom_matches a d \<and> match_here as s)"

fun match_anywhere :: "atom list \<Rightarrow> string \<Rightarrow> bool" where
  "match_anywhere as [] = match_here as []"
| "match_anywhere as (d # s) = (match_here as (d # s) \<or> match_anywhere as s)"

definition regex_i :: "env \<Rightarrow> string \<Rightarrow> string + (string \<Rightarrow> bool)" where
  "regex_i e q =
     (case compile q of
        Some as \<Rightarrow> Inr (\<lambda>x. if ascii x then match_anywhere as x else regexMatches e q x)
      | None \<Rightarrow>
          (case regexRefuses e q of
             Some m \<Rightarrow> Inl m
           | None \<Rightarrow> Inr (regexMatches e q)))"

text \<open>A field that is absent matches no regular expression.\<close>

definition field_matches :: "(string \<Rightarrow> bool) \<Rightarrow> jsstring \<Rightarrow> bool" where
  "field_matches m f = (case f of None \<Rightarrow> False | Some s \<Rightarrow> m s)"

section \<open>Query service\<close>

text \<open>
  The read routes. Each answers \<open>{success: true, count, data}\<close>, or \<open>{success: true, data}\<close>
  for one record, or the envelope of its catch block when the database call throws.
\<close>

definition listed :: "'a list \<Rightarrow> 'a list envelope" where
  "listed xs = (respond 200 True)\<lparr>count := Some (length xs), data := Some xs\<rparr>"

definition list_players :: "env \<Rightarrow> state \<Rightarrow> playerDoc stored list envelope" where
  "list_players e s =
     (case dbFind e (\<lambda>d. True) (players s) of
        Inl m \<Rightarrow> caught ''Error fetching players'' m
      | Inr ps \<Rightarrow> listed (sort_key (\<lambda>d. p_name (doc d)) ps))"

definition get_player :: "env \<Rightarrow> state \<Rightarrow> objid \<Rightarrow> playerDoc stored envelope" where
  "get_player e s i =
     (case findById e i (players s) of
        Inl m \<Rightarrow> caught ''Error fetching player'' m
      | Inr None \<Rightarrow> (respond 404 False)\<lparr>message := Some ''Player not found''\<rparr>
      | Inr (Some player) \<Rightarrow> (respond 200 True)\<lparr>data := Some player\<rparr>)"

definition search_players :: "env \<Rightarrow> state \<Rightarrow> string \<Rightarrow> playerDoc stored list envelope" where
  "search_players e s q =
     (case (case regex_i e q of
              Inl m \<Rightarrow> Inl m
            | Inr m \<Rightarrow>
                dbFind e (\<lambda>d. field_matches m (p_name (doc d)) \<or>
                              field_matches m (p_displayName (doc d))) (players s)) of
        Inl m \<Rightarrow> caught ''Error searching players'' m
      | Inr ps \<Rightarrow> listed (take 10 ps))"

definition top_players :: "env \<Rightarrow> state \<Rightarrow> playerDoc stored list envelope" where
  "top_players e s =
     (case dbFind e (\<lambda>d. True) (players s) of
        Inl m \<Rightarrow> caught ''Error fetching top players'' m
      | Inr ps \<Rightarrow> listed (take 10 (rev (sort_key (\<lambda>d. p_points (doc d)) ps))))"

definition list_teams :: "env \<Rightarrow> state \<Rightarrow> teamDoc stored list envelope" where
  "list_teams e s =
     (case dbFind e (\<lambda>d. True) (teams s) of
        Inl m \<Rightarrow> caught ''Error fetching teams'' m
      | Inr ts \<Rightarrow> listed (sort_key (\<lambda>d. t_name (doc d)) ts))"

definition get_team :: "env \<Rightarrow> state \<Rightarrow> objid \<Rightarrow> teamDoc stored envelope" where
  "get_team e s i =
     (case findById e i (teams s) of
        Inl m \<Rightarrow> caught ''Error fetching team'' m
      | Inr None \<Rightarrow> (respond 404 False)\<lparr>message := Some ''Team not found''\<rparr>
      | Inr (Some team) \<Rightarrow> (respond 200 True)\<lparr>data := Some team\<rparr>)"

definition random_teams :: "env \<Rightarrow> state \<Rightarrow> teamDoc stored list envelope" where
  "random_teams e s =
     (case aggregate_sample e 10 (teams s) of
        Inl m \<Rightarrow> caught ''Error fetching random teams'' m
      | Inr ts \<Rightarrow> listed ts)"

definition list_games :: "env \<Rightarrow> state \<Rightarrow> gameDoc stored list envelope" where
  "list_games e s =
     (case dbFind e (\<lambda>d. True) (games s) of
        Inl m \<Rightarrow> caught ''Error fetching games'' m
      | Inr gs \<Rightarrow> listed (rev (sort_key (\<lambda>d. g_date (doc d)) gs)))"

definition latest_games :: "env \<Rightarrow> state \<Rightarrow> gameDoc stored list envelope" where
  "latest_games e s =
     (case dbFind e (\<lambda>d. True) (games s) of
        Inl m \<Rightarrow> caught ''Error fetching latest games'' m
      | Inr gs \<Rightarrow> listed (take 10 (rev (sort_key (\<lambda>d. g_date (doc d)) gs))))"

definition games_by_date :: "env \<Rightarrow> state \<Rightarrow> string \<Rightarrow> gameDoc stored list envelope" where
  "games_by_date e s d =
     (case dbFind e (\<lambda>g. g_dateFormatted (doc g) = Some d) (games s) of
        Inl m \<Rightarrow> caught ''Error fetching games by date'' m
      | Inr gs \<Rightarrow> listed (sort_key (\<lambda>d. g_date (doc d)) gs))"

section \<open>Refresh orchestrator\<close>

subsection \<open>JavaScript operators the normalisation uses\<close>

text \<open>
  \<open>a || b\<close> is \<open>b\<close> when \<open>a\<close> is falsy: \<open>undefined\<close>, the empty string, the number 0.
  \<open>x?.f\<close> is \<open>undefined\<close> when \<open>x\<close> is.
\<close>

definition js_or :: "jsstring \<Rightarrow> jsstring \<Rightarrow> jsstring" where
  "js_or a b = (case a of None \<Rightarrow> b | Some x \<Rightarrow> if x = [] then b else Some x)"

definition js_or_num :: "int option \<Rightarrow> int \<Rightarrow> int" where
  "js_or_num a b = (case a of None \<Rightarrow> b | Some n \<Rightarrow> if n = 0 then b else n)"

definition opt_chain :: "'a option \<Rightarrow> ('a \<Rightarrow> 'b option) \<Rightarrow> 'b option" where
  "opt_chain x f = (case x of None \<Rightarrow> None | Some y \<Rightarrow> f y)"

subsection \<open>Teams\<close>

record division =
  d_name :: string
  d_endpoint :: string
  d_conference :: string

definition divisions :: "division list" where
  "divisions =
     [\<lparr>d_name = ''Atlantic'', d_endpoint = ''/nba-atlantic-team-list'', d_conference = ''East''\<rparr>,
      \<lparr>d_name = ''Central'', d_endpoint = ''/nba-central-team-list'', d_conference = ''East''\<rparr>,
      \<lparr>d_name = ''Southeast'', d_endpoint = ''/nba-southeast-team-list'', d_conference = ''East''\<rparr>,
      \<lparr>d_name = ''Northwest'', d_endpoint = ''/nba-northwest-team-list'', d_conference = ''West''\<rparr>,
      \<lparr>d_name = ''Pacific'', d_endpoint = ''/nba-pacific-team-list'', d_conference = ''West''\<rparr>,
      \<lparr>d_name = ''Southwest'', d_endpoint = ''/nba-southwest-team-list'', d_conference = ''West''\<rparr>]"

text \<open>
  \<open>{...team, divisionName, conferenceName}\<close>: the two keys come after the spread, so
  they are the division's whatever the upstream object holds.
\<close>

record taggedTeam =
  team :: upstreamTeam
  divisionName :: string
  conferenceName :: string

definition tag :: "division \<Rightarrow> upstreamTeam \<Rightarrow> taggedTeam" where
  "tag d t = \<lparr>team = t, divisionName = d_name d, conferenceName = d_conference d\<rparr>"

text \<open>
  The loop over the divisions, with \<open>allTeams\<close> as accumulator. A division whose fetch
  throws is skipped, and so is one whose answer has no \<open>response\<close>: reading
  \<open>data.teamList\<close> throws inside the same \<open>try\<close>. The 500 ms pause after a fetch
  changes no value.
\<close>

fun fetch_divisions ::
  "env \<Rightarrow> division list \<Rightarrow> taggedTeam list \<Rightarrow> state \<Rightarrow> taggedTeam list \<times> state" where
  "fetch_divisions e [] allTeams s = (allTeams, s)"
| "fetch_divisions e (d # ds) allTeams s =
     (case fetchFromRapidAPI e (d_endpoint d) s of
        (Inl err, s') \<Rightarrow> fetch_divisions e ds allTeams s'
      | (Inr None, s') \<Rightarrow> fetch_divisions e ds allTeams s'
      | (Inr (Some dat), s') \<Rightarrow>
          (case teamList dat of
             None \<Rightarrow> fetch_divisions e ds allTeams s'
           | Some tlist \<Rightarrow>
               if length tlist > 0
               then fetch_divisions e ds (allTeams @ map (tag d) tlist) s'
               else fetch_divisions e ds allTeams s'))"

definition teamToInsert :: "taggedTeam \<Rightarrow> teamDoc" where
  "teamToInsert t =
     \<lparr>t_apiTeamId = ut_id (team t),
      t_name = ut_name (team t),
      t_shortName = ut_shortName (team t),
      t_abbrev = ut_abbrev (team t),
      t_logo = ut_logo (team t),
      t_logoDark = ut_logoDark (team t),
      t_href = ut_href (team t),
      t_conference = Some (conferenceName t),
      t_division = Some (divisionName t),
      t_wins = 0,
      t_losses = 0\<rparr>"

definition in_division :: "taggedTeam list \<Rightarrow> string \<Rightarrow> nat" where
  "in_division allTeams n = length (filter (\<lambda>t. divisionName t = n) allTeams)"

definition breakdown_of :: "taggedTeam list \<Rightarrow> breakdownDoc" where
  "breakdown_of allTeams =
     \<lparr>Atlantic = in_division allTeams ''Atlantic'',
      Central = in_division allTeams ''Central'',
      Southeast = in_division allTeams ''Southeast'',
      Northwest = in_division allTeams ''Northwest'',
      Pacific = in_division allTeams ''Pacific'',
      Southwest = in_division allTeams ''Southwest''\<rparr>"

definition populate_teams :: "env \<Rightarrow> state \<Rightarrow> unit envelope \<times> state" where
  "populate_teams e s =
     (case fetch_divisions e divisions [] s of
        (allTeams, s1) \<Rightarrow>
          if length allTeams = 0
          then ((respond 404 False)\<lparr>message := Some ''No teams found in API response''\<rparr>, s1)
          else
            (case deleteMany e (teams s1) of
               Inl m \<Rightarrow> (caught ''Error populating teams'' m, s1)
             | Inr cleared \<Rightarrow>
                 (let s2 = s1\<lparr>teams := cleared\<rparr>;
                      teamsToInsert = map teamToInsert allTeams
                  in case insertMany e (\<lambda>d. True) teamsToInsert (teams s2) of
                       Inl m \<Rightarrow> (caught ''Error populating teams'' m, s2)
                     | Inr inserted \<Rightarrow>
                         ((respond 200 True)
                            \<lparr>message := Some (''Successfully populated '' @
                                string_of_nat (length teamsToInsert) @
                                '' teams from all 6 divisions''),
                             count := Some (length teamsToInsert),
                             breakdown := Some (breakdown_of allTeams)\<rparr>,
                          s2\<lparr>teams := inserted\<rparr>))))"

subsection \<open>Players\<close>

text \<open>
  The nested \<open>try\<close> of the route: the fallback is asked only when the primary throws,
  and \<open>Inl\<close> is the error of the fallback, with which the route returns.
\<close>

definition fetch_players :: "env \<Rightarrow> state \<Rightarrow> (string + payload option) \<times> state" where
  "fetch_players e s =
     (case fetchFromRapidAPI e ''/players'' s of
        (Inr dat, s1) \<Rightarrow> (Inr dat, s1)
      | (Inl e1, s1) \<Rightarrow>
          (case fetchFromRapidAPI e ''/nba/players'' s1 of
             (Inr dat, s2) \<Rightarrow> (Inr dat, s2)
           | (Inl e2, s2) \<Rightarrow> (Inl e2, s2)))"

definition playerToInsert :: "upstreamPlayer \<Rightarrow> playerDoc" where
  "playerToInsert player =
     \<lparr>p_apiPlayerId = up_id player,
      p_name = js_or (up_name player) (up_displayName player),
      p_displayName = up_displayName player,
      p_shortName = up_shortName player,
      p_team = js_or (opt_chain (up_team player) tr_name) (Some ''Free Agent''),
      p_teamId = opt_chain (up_team player) tr_id,
      p_position = up_position player,
      p_jersey = up_jersey player,
      p_image = up_image player,
      p_imageUrl = up_headshot player,
      p_points = 0,
      p_assists = 0,
      p_rebounds = 0\<rparr>"

definition no_players :: "unit envelope" where
  "no_players = (respond 404 False)\<lparr>message := Some ''No players found in API response''\<rparr>"

definition populate_players :: "env \<Rightarrow> state \<Rightarrow> unit envelope \<times> state" where
  "populate_players e s =
     (case fetch_players e s of
        (Inl e2, s1) \<Rightarrow>
          ((respond 404 False)
             \<lparr>message := Some ''Players endpoint not found. Check API documentation.'',
              error := Some e2\<rparr>, s1)
      | (Inr None, s1) \<Rightarrow>
          (caught ''Error populating players'' (typeErrorText e ''playerList''), s1)
      | (Inr (Some dat), s1) \<Rightarrow>
          (case playerList dat of
             None \<Rightarrow> (no_players, s1)
           | Some pl \<Rightarrow>
               if length pl = 0 then (no_players, s1)
               else
                 (case deleteMany e (players s1) of
                    Inl m \<Rightarrow> (caught ''Error populating players'' m, s1)
                  | Inr cleared \<Rightarrow>
                      (let s2 = s1\<lparr>players := cleared\<rparr>;
                           playersToInsert = map playerToInsert pl
                       in case insertMany e (\<lambda>d. True) playersToInsert (players s2) of
                            Inl m \<Rightarrow> (caught ''Error populating players'' m, s2)
                          | Inr inserted \<Rightarrow>
                              ((respond 200 True)
                                 \<lparr>message := Some (''Successfully populated '' @
                                     string_of_nat (length playersToInsert) @ '' players''),
                                  count := Some (length playersToInsert)\<rparr>,
                               s2\<lparr>players := inserted\<rparr>)))))"

subsection \<open>Games\<close>

text \<open>\<open>new Date().toISOString().split('T')[0]\<close>: what stands before the first \<open>T\<close>.\<close>

definition today :: "env \<Rightarrow> string" where
  "today e = takeWhile (\<lambda>c. c \<noteq> CHR ''T'') (nowISO e)"

definition fetch_games :: "env \<Rightarrow> state \<Rightarrow> (string + payload option) \<times> state" where
  "fetch_games e s =
     (case fetchFromRapidAPI e ''/games'' s of
        (Inr dat, s1) \<Rightarrow> (Inr dat, s1)
      | (Inl e1, s1) \<Rightarrow>
          (case fetchFromRapidAPI e ''/schedule'' s1 of
             (Inr dat, s2) \<Rightarrow> (Inr dat, s2)
           | (Inl e2, s2) \<Rightarrow>
               (case fetchFromRapidAPI e (''/games?date='' @ today e) s2 of
                  (Inr dat, s3) \<Rightarrow> (Inr dat, s3)
                | (Inl e3, s3) \<Rightarrow> (Inl e3, s3))))"

text \<open>\<open>new Date(x)\<close>: invalid when \<open>x\<close> is \<open>undefined\<close> or does not parse.\<close>

definition newDate :: "env \<Rightarrow> jsstring \<Rightarrow> int option" where
  "newDate e x = (case x of None \<Rightarrow> None | Some d \<Rightarrow> parseDate e d)"

text \<open>The schema's verdict on a game: a \<open>Date\<close> field refuses an invalid date.\<close>

definition valid_game :: "gameDoc \<Rightarrow> bool" where
  "valid_game g = (g_date g \<noteq> None)"

definition sideToInsert :: "upstreamSide option \<Rightarrow> sideDoc" where
  "sideToInsert t =
     \<lparr>s_id = opt_chain t us_id,
      s_name = opt_chain t us_name,
      s_abbrev = opt_chain t us_abbrev,
      s_logo = opt_chain t us_logo,
      s_score = js_or_num (opt_chain t us_score) 0\<rparr>"

definition gameToInsert :: "env \<Rightarrow> upstreamGame \<Rightarrow> gameDoc" where
  "gameToInsert e game =
     \<lparr>g_apiGameId = ug_id game,
      g_date = newDate e (ug_date game),
      g_dateFormatted = ug_dateFormatted game,
      g_status = ug_status game,
      g_homeTeam = sideToInsert (ug_homeTeam game),
      g_awayTeam = sideToInsert (ug_awayTeam game),
      g_venue = ug_venue game\<rparr>"

definition no_games :: "unit envelope" where
  "no_games = (respond 200 True)\<lparr>message := Some ''No games found'', count := Some 0\<rparr>"

definition populate_games :: "env \<Rightarrow> state \<Rightarrow> unit envelope \<times> state" where
  "populate_games e s =
     (case fetch_games e s of
        (Inl e3, s1) \<Rightarrow>
          ((respond 404 False)
             \<lparr>message := Some ''Games endpoint not found. Check API documentation.'',
              error := Some e3\<rparr>, s1)
      | (Inr None, s1) \<Rightarrow>
          (caught ''Error populating games'' (typeErrorText e ''gameList''), s1)
      | (Inr (Some dat), s1) \<Rightarrow>
          (case gameList dat of
             None \<Rightarrow> (no_games, s1)
           | Some gl \<Rightarrow>
               if length gl = 0 then (no_games, s1)
               else
                 (case deleteMany e (games s1) of
                    Inl m \<Rightarrow> (caught ''Error populating games'' m, s1)
                  | Inr cleared \<Rightarrow>
                      (let s2 = s1\<lparr>games := cleared\<rparr>;
                           gamesToInsert = map (gameToInsert e) gl
                       in case insertMany e valid_game gamesToInsert (games s2) of
                            Inl m \<Rightarrow> (caught ''Error populating games'' m, s2)
                          | Inr inserted \<Rightarrow>
                              ((respond 200 True)
                                 \<lparr>message := Some (''Successfully populated '' @
                                     string_of_nat (length gamesToInsert) @ '' games''),
                                  count := Some (length gamesToInsert)\<rparr>,
                               s2\<lparr>games := inserted\<rparr>)))))"

section \<open>Notions the properties are stated with\<close>

text \<open>What an endpoint answers, after unwrapping.\<close>

abbreviation answer :: "env \<Rightarrow> string \<Rightarrow> string + payload option" where
  "answer e ep \<equiv> unwrap (httpGet e ep)"

text \<open>The team list a division's endpoint returns, empty when there is none.\<close>

definition upstream_teams :: "env \<Rightarrow> division \<Rightarrow> upstreamTeam list" where
  "upstream_teams e d =
     (case answer e (d_endpoint d) of
        Inl err \<Rightarrow> []
      | Inr None \<Rightarrow> []
      | Inr (Some dat) \<Rightarrow> (case teamList dat of None \<Rightarrow> [] | Some tlist \<Rightarrow> tlist))"

text \<open>A division's endpoint succeeds and returns \<open>k\<close> teams.\<close>

definition returns_teams :: "env \<Rightarrow> division \<Rightarrow> nat \<Rightarrow> bool" where
  "returns_teams e d k =
     (case answer e (d_endpoint d) of
        Inl err \<Rightarrow> False
      | Inr None \<Rightarrow> False
      | Inr (Some dat) \<Rightarrow>
          (case teamList dat of None \<Rightarrow> False | Some tlist \<Rightarrow> length tlist = k))"

text \<open>The records a division's teams are stored as.\<close>

definition division_docs :: "env \<Rightarrow> division \<Rightarrow> teamDoc list" where
  "division_docs e d = map (\<lambda>t. teamToInsert (tag d t)) (upstream_teams e d)"

text \<open>What a collection holds, apart from \<open>_id\<close> and \<open>lastUpdated\<close>.\<close>

definition contents :: "'a stored list \<Rightarrow> 'a list" where
  "contents coll = map doc coll"

text \<open>The same collections: two states that differ in the request log at most.\<close>

definition same_store :: "state \<Rightarrow> state \<Rightarrow> bool" where
  "same_store s s' = (players s' = players s \<and> teams s' = teams s \<and> games s' = games s)"





text \<open>A list-shaped envelope whose count is the length of its data.\<close>

definition counted :: "'a list envelope \<Rightarrow> bool" where
  "counted r = (\<exists>xs. data r = Some xs \<and> count r = Some (length xs))"

text \<open>A division whose fetch failed or returned no teams.\<close>

definition nothing_from :: "env \<Rightarrow> division \<Rightarrow> bool" where
  "nothing_from e d =
     (case answer e (d_endpoint d) of
        Inl err \<Rightarrow> True
      | Inr None \<Rightarrow> True
      | Inr (Some dat) \<Rightarrow> (case teamList dat of None \<Rightarrow> True | Some tlist \<Rightarrow> tlist = []))"

text \<open>
  The teams the division endpoints return, each with the division it was asked under, in
  the order of the loop.
\<close>

definition upstream_pairs :: "env \<Rightarrow> (division \<times> upstreamTeam) list" where
  "upstream_pairs e = concat (map (\<lambda>d. map (Pair d) (upstream_teams e d)) divisions)"

text \<open>
  The record \<open>r\<close> is the normalised form of the upstream team \<open>t\<close> of division \<open>d\<close>:
  identifier, name, short name, abbreviation, the two logos and the link are the
  upstream's, conference and division are the division's, wins and losses are zero.
\<close>

definition stored_as :: "division \<times> upstreamTeam \<Rightarrow> teamDoc \<Rightarrow> bool" where
  "stored_as p r =
     (t_apiTeamId r = ut_id (snd p) \<and> t_name r = ut_name (snd p)
      \<and> t_shortName r = ut_shortName (snd p) \<and> t_abbrev r = ut_abbrev (snd p)
      \<and> t_logo r = ut_logo (snd p) \<and> t_logoDark r = ut_logoDark (snd p)
      \<and> t_href r = ut_href (snd p)
      \<and> t_conference r = Some (d_conference (fst p)) \<and> t_division r = Some (d_name (fst p))
      \<and> t_wins r = 0 \<and> t_losses r = 0)"

text \<open>The division names with the conference each is tagged with.\<close>

definition division_tags :: "(string \<times> string) list" where
  "division_tags = map (\<lambda>d. (d_name d, d_conference d)) divisions"

text \<open>
  What Refresh Players stores for an upstream record: the three statistics are zero, the
  name is the upstream name unless that is absent or empty, when it is the display name,
  and the team is the upstream team's name unless that is absent or empty, when it is
  \<open>Free Agent\<close>.
\<close>

definition normalised :: "upstreamPlayer \<Rightarrow> playerDoc \<Rightarrow> bool" where
  "normalised u r =
     (p_points r = 0 \<and> p_assists r = 0 \<and> p_rebounds r = 0
      \<and> p_name r =
          (case up_name u of
             None \<Rightarrow> up_displayName u
           | Some n \<Rightarrow> if n = [] then up_displayName u else Some n)
      \<and> p_team r =
          (case up_team u of
             None \<Rightarrow> Some ''Free Agent''
           | Some t \<Rightarrow>
               (case tr_name t of
                  None \<Rightarrow> Some ''Free Agent''
                | Some n \<Rightarrow> if n = [] then Some ''Free Agent'' else Some n)))"

text \<open>The same with the upstream name and team name taken whenever the key is there.\<close>

definition normalised_as_stated :: "upstreamPlayer \<Rightarrow> playerDoc \<Rightarrow> bool" where
  "normalised_as_stated u r =
     (p_points r = 0 \<and> p_assists r = 0 \<and> p_rebounds r = 0
      \<and> p_name r = (case up_name u of None \<Rightarrow> up_displayName u | Some n \<Rightarrow> Some n)
      \<and> p_team r =
          (case up_team u of
             None \<Rightarrow> Some ''Free Agent''
           | Some t \<Rightarrow> (case tr_name t of None \<Rightarrow> Some ''Free Agent'' | Some n \<Rightarrow> Some n)))"


section \<open>Fixtures\<close>

text \<open>
  Concrete environments and states: an upstream given by its answers, a database that is
  up, a clock on 15 January 2025 and an identifier source.
\<close>

definition fixture :: "(string \<Rightarrow> axiosResult) \<Rightarrow> env" where
  "fixture up =
     \<lparr>httpGet = up, nowISO = ''2025-01-15T10:30:00.000Z'',
      dateNow = (\<lambda>i. 1736937000000),
      newObjectId = (\<lambda>i. ''65f00000000000000000000'' @ [''0123456789abcdef'' ! (i mod 16)]),
      parseDate =
        map_of [(''2025-01-15T19:00:00.000Z'', 1736967600000),
                (''2025-01-16T19:00:00.000Z'', 1737054000000)],
      dbFindErr = None, dbDeleteErr = None, dbInsertErr = None,
      rand = (\<lambda>i. 0),
      regexRefuses = (\<lambda>q. Some ''Regular expression is invalid''),
      regexMatches = (\<lambda>q x. False),
      typeErrorText = (\<lambda>k. ''Cannot read properties of undefined (reading '' @ k @ '')''),
      castErrorText = (\<lambda>v. ''Cast to ObjectId failed for value '' @ v),
      validationErrorText = ''Game validation failed: date: Cast to date failed''\<rparr>"

definition ok_body :: "payload \<Rightarrow> axiosResult" where
  "ok_body p = Resolved (Some \<lparr>status = ''success'', response = Some p\<rparr>)"

text \<open>The body \<open>{"status": "success"}\<close>, with no \<open>response\<close>.\<close>

definition bare_body :: axiosResult where
  "bare_body = Resolved (Some \<lparr>status = ''success'', response = None\<rparr>)"

definition no_lists :: payload where
  "no_lists = \<lparr>teamList = None, playerList = None, gameList = None\<rparr>"

definition all_down :: "string \<Rightarrow> axiosResult" where
  "all_down ep = Rejected ''Request failed with status code 404''"

definition blank_player :: playerDoc where
  "blank_player =
     \<lparr>p_apiPlayerId = None, p_name = None, p_displayName = None, p_shortName = None,
      p_team = None, p_teamId = None, p_position = None, p_jersey = None, p_image = None,
      p_imageUrl = None, p_points = 0, p_assists = 0, p_rebounds = 0\<rparr>"

definition lebron :: "playerDoc stored" where
  "lebron =
     \<lparr>oid = ''65a1b2c3d4e5f60718293a4b'', doc = blank_player\<lparr>p_name := Some ''LeBron James''\<rparr>,
      lastUpdated = 1736937000000\<rparr>"

definition blank_team :: upstreamTeam where
  "blank_team =
     \<lparr>ut_id = None, ut_name = None, ut_shortName = None, ut_abbrev = None, ut_logo = None,
      ut_logoDark = None, ut_href = None\<rparr>"

definition celtics_up :: upstreamTeam where
  "celtics_up =
     \<lparr>ut_id = Some ''2'', ut_name = Some ''Boston Celtics'', ut_shortName = Some ''Celtics'',
      ut_abbrev = Some ''BOS'', ut_logo = Some ''bos.png'', ut_logoDark = Some ''bos-dark.png'',
      ut_href = Some ''/team/bos''\<rparr>"

definition celtics_doc :: teamDoc where
  "celtics_doc =
     \<lparr>t_apiTeamId = Some ''2'', t_name = Some ''Boston Celtics'', t_shortName = Some ''Celtics'',
      t_abbrev = Some ''BOS'', t_logo = Some ''bos.png'', t_logoDark = Some ''bos-dark.png'',
      t_href = Some ''/team/bos'', t_conference = Some ''East'', t_division = Some ''Atlantic'',
      t_wins = 0, t_losses = 0\<rparr>"

definition lakers_doc :: teamDoc where
  "lakers_doc =
     \<lparr>t_apiTeamId = Some ''13'', t_name = Some ''Los Angeles Lakers'',
      t_shortName = Some ''Lakers'', t_abbrev = Some ''LAL'', t_logo = None, t_logoDark = None,
      t_href = None, t_conference = Some ''West'', t_division = Some ''Pacific'',
      t_wins = 0, t_losses = 0\<rparr>"

definition lakers :: "teamDoc stored" where
  "lakers = \<lparr>oid = ''65b1b2c3d4e5f60718293a4b'', doc = lakers_doc, lastUpdated = 1736937000000\<rparr>"

definition blank_side :: sideDoc where
  "blank_side = \<lparr>s_id = None, s_name = None, s_abbrev = None, s_logo = None, s_score = 0\<rparr>"

definition opener :: "gameDoc stored" where
  "opener =
     \<lparr>oid = ''65c1b2c3d4e5f60718293a4b'',
      doc = \<lparr>g_apiGameId = Some ''401'', g_date = Some 1736967600000,
             g_dateFormatted = Some ''2025-01-15'', g_status = Some ''Final'',
             g_homeTeam = blank_side, g_awayTeam = blank_side, g_venue = None\<rparr>,
      lastUpdated = 1736937000000\<rparr>"

definition empty_state :: state where
  "empty_state = \<lparr>players = [], teams = [], games = [], requests = []\<rparr>"

definition small_state :: state where
  "small_state = \<lparr>players = [lebron], teams = [lakers], games = [opener], requests = []\<rparr>"

definition schedule_only :: "string \<Rightarrow> axiosResult" where
  "schedule_only ep = (if ep = ''/schedule'' then ok_body no_lists else all_down ep)"

text \<open>An upstream whose \<open>/games\<close> answers success without a \<open>response\<close>.\<close>

definition games_bare :: "string \<Rightarrow> axiosResult" where
  "games_bare ep = (if ep = ''/games'' then bare_body else all_down ep)"

definition blank_upstream_player :: upstreamPlayer where
  "blank_upstream_player =
     \<lparr>up_id = None, up_name = None, up_displayName = None, up_shortName = None,
      up_team = None, up_position = None, up_jersey = None, up_image = None,
      up_headshot = None\<rparr>"

definition nameless :: upstreamPlayer where
  "nameless = blank_upstream_player\<lparr>up_name := Some [], up_displayName := Some ''LeBron James''\<rparr>"

definition curry_up :: upstreamPlayer where
  "curry_up = blank_upstream_player
     \<lparr>up_name := Some ''Stephen Curry'',
      up_team := Some \<lparr>tr_id = Some ''9'', tr_name = Some ''Golden State Warriors''\<rparr>\<rparr>"

definition players_up :: "upstreamPlayer list \<Rightarrow> string \<Rightarrow> axiosResult" where
  "players_up pl ep =
     (if ep = ''/players'' then ok_body (no_lists\<lparr>playerList := Some pl\<rparr>) else all_down ep)"

definition division_up :: "nat \<Rightarrow> string \<Rightarrow> axiosResult" where
  "division_up k ep =
     (if ep \<in> set (map d_endpoint divisions)
      then ok_body (no_lists\<lparr>teamList := Some (replicate k (blank_team\<lparr>ut_href := Some ep\<rparr>))\<rparr>)
      else all_down ep)"

definition division_up_but :: "string \<Rightarrow> nat \<Rightarrow> string \<Rightarrow> axiosResult" where
  "division_up_but down k ep = (if ep = down then all_down ep else division_up k ep)"

definition pacific :: division where
  "pacific = \<lparr>d_name = ''Pacific'', d_endpoint = ''/nba-pacific-team-list'', d_conference = ''West''\<rparr>"

text \<open>An upstream whose Atlantic endpoint alone answers, with one team.\<close>

definition atlantic_only :: "string \<Rightarrow> axiosResult" where
  "atlantic_only ep =
     (if ep = ''/nba-atlantic-team-list''
      then ok_body (no_lists\<lparr>teamList := Some [celtics_up]\<rparr>)
      else all_down ep)"

text \<open>The same environment a minute later, and a day later.\<close>

definition moments_later :: "env \<Rightarrow> env" where
  "moments_later e = e\<lparr>nowISO := ''2025-01-15T10:31:00.000Z'', dateNow := (\<lambda>i. 1736937060000)\<rparr>"

definition next_day :: "env \<Rightarrow> env" where
  "next_day e = e\<lparr>nowISO := ''2025-01-16T10:30:00.000Z'', dateNow := (\<lambda>i. 1737023400000)\<rparr>"

text \<open>A game by its identifier and date, and an upstream that has games under the
  date-qualified endpoint only, by day.\<close>

definition game_on :: "string \<Rightarrow> string \<Rightarrow> upstreamGame" where
  "game_on n d =
     \<lparr>ug_id = Some n, ug_date = Some d, ug_dateFormatted = None, ug_status = None,
      ug_homeTeam = None, ug_awayTeam = None, ug_venue = None\<rparr>"

definition games_by_day :: "string \<Rightarrow> axiosResult" where
  "games_by_day ep =
     (if ep = ''/games?date=2025-01-15''
      then ok_body (no_lists\<lparr>gameList := Some [game_on ''15'' ''2025-01-15T19:00:00.000Z'']\<rparr>)
      else if ep = ''/games?date=2025-01-16''
      then ok_body (no_lists\<lparr>gameList := Some [game_on ''16'' ''2025-01-16T19:00:00.000Z'']\<rparr>)
      else all_down ep)"

text \<open>An upstream that has a team in every division, a player and a game.\<close>

definition full_up :: "string \<Rightarrow> axiosResult" where
  "full_up ep =
     (if ep = ''/players'' then ok_body (no_lists\<lparr>playerList := Some [curry_up]\<rparr>)
      else if ep = ''/games''
      then ok_body (no_lists\<lparr>gameList := Some [game_on ''401'' ''2025-01-15T19:00:00.000Z'']\<rparr>)
      else division_up 1 ep)"

section \<open>Properties of the upstream client and the fallback chains\<close>

lemma fetch_players_split:
  "fetch_players e s =
     (case answer e ''/players'' of
        Inr dat \<Rightarrow> (Inr dat, s\<lparr>requests := requests s @ [''/players'']\<rparr>)
      | Inl e1 \<Rightarrow> (answer e ''/nba/players'',
                   s\<lparr>requests := requests s @ [''/players'', ''/nba/players'']\<rparr>))"
  by (simp add: fetch_players_def fetchFromRapidAPI_def split: sum.splits)

lemma fetch_games_split:
  "fetch_games e s =
     (case answer e ''/games'' of
        Inr dat \<Rightarrow> (Inr dat, s\<lparr>requests := requests s @ [''/games'']\<rparr>)
      | Inl e1 \<Rightarrow>
          (case answer e ''/schedule'' of
             Inr dat \<Rightarrow> (Inr dat, s\<lparr>requests := requests s @ [''/games'', ''/schedule'']\<rparr>)
           | Inl e2 \<Rightarrow>
               (answer e (''/games?date='' @ today e),
                s\<lparr>requests := requests s @
                   [''/games'', ''/schedule'', ''/games?date='' @ today e]\<rparr>)))"
  by (simp add: fetch_games_def fetchFromRapidAPI_def split: sum.splits)

lemma fetch_games_store: "same_store s (snd (fetch_games e s))"
  by (simp add: fetch_games_split same_store_def split: sum.splits)

text \<open>
  C2. Refresh Players when both \<open>/players\<close> and \<open>/nba/players\<close> fail: the route
  answers 404 with the message of the endpoint-not-found failure and, as \<open>error\<close>, the
  message of the last error (that of the fallback), and the three collections are what they
  were.
\<close>

theorem populate_players_both_fail:
  assumes "answer e ''/players'' = Inl e1"
    and "answer e ''/nba/players'' = Inl e2"
  shows "fst (populate_players e s) =
           (respond 404 False)
              \<lparr>message := Some ''Players endpoint not found. Check API documentation.'',
               error := Some e2\<rparr>
         \<and> same_store s (snd (populate_players e s))"
  using assms by (simp add: populate_players_def fetch_players_split same_store_def)

theorem populate_players_both_fail_witness:
  "fst (populate_players (fixture all_down) small_state) =
     \<lparr>httpStatus = 404, success = False,
      message = Some ''Players endpoint not found. Check API documentation.'',
      count = None, data = None, error = Some ''Request failed with status code 404'',
      breakdown = None\<rparr>
   \<and> players (snd (populate_players (fixture all_down) small_state)) = [lebron]"
  using populate_players_both_fail [of "fixture all_down" "''Request failed with status code 404''"
      "''Request failed with status code 404''" small_state]
  by (simp add: fixture_def all_down_def unwrap_def respond_def small_state_def same_store_def)

text \<open>
  C1, amended. Refresh Games when the chain of endpoints succeeds. If the answer has a
  \<open>response\<close> whose game list is missing or empty, the route answers success with count 0
  and the collections are what they were (neither \<open>deleteMany\<close> nor \<open>insertMany\<close> is
  reached). If the answer has no \<open>response\<close> at all, the collections are what they were
  too.
\<close>

theorem populate_games_no_games:
  "(fst (fetch_games e s) = Inr (Some dat) \<and> (gameList dat = None \<or> gameList dat = Some []) \<longrightarrow>
      fst (populate_games e s) =
        (respond 200 True)\<lparr>message := Some ''No games found'', count := Some 0\<rparr>
      \<and> same_store s (snd (populate_games e s)))
   \<and> (fst (fetch_games e s) = Inr None \<longrightarrow> same_store s (snd (populate_games e s)))"
proof -
  obtain r s1 where f: "fetch_games e s = (r, s1)"
    by (cases "fetch_games e s")
  have st: "same_store s s1"
    using fetch_games_store [of s e] f by simp
  have "fst (populate_games e s) =
        (respond 200 True)\<lparr>message := Some ''No games found'', count := Some 0\<rparr>
      \<and> same_store s (snd (populate_games e s))"
    if "r = Inr (Some dat)" and "gameList dat = None \<or> gameList dat = Some []"
    using that f st by (auto simp: populate_games_def no_games_def)
  moreover have "same_store s (snd (populate_games e s))" if "r = Inr None"
    using that f st by (simp add: populate_games_def)
  ultimately show ?thesis
    using f by simp
qed

theorem populate_games_no_games_witness:
  "fst (populate_games (fixture schedule_only) small_state) =
     \<lparr>httpStatus = 200, success = True, message = Some ''No games found'', count = Some 0,
      data = None, error = None, breakdown = None\<rparr>
   \<and> games (snd (populate_games (fixture schedule_only) small_state)) = [opener]
   \<and> games (snd (populate_games (fixture games_bare) small_state)) = [opener]"
proof -
  have "fst (fetch_games (fixture schedule_only) small_state) = Inr (Some no_lists)"
    by (simp add: fetch_games_split fixture_def schedule_only_def all_down_def ok_body_def
        unwrap_def)
  moreover have "gameList no_lists = None \<or> gameList no_lists = Some []"
    by (simp add: no_lists_def)
  moreover have "fst (fetch_games (fixture games_bare) small_state) = Inr None"
    by (simp add: fetch_games_split fixture_def games_bare_def bare_body_def unwrap_def)
  ultimately show ?thesis
    using populate_games_no_games [of "fixture schedule_only" small_state no_lists]
      populate_games_no_games [of "fixture games_bare" small_state no_lists]
    by (simp add: respond_def same_store_def small_state_def)
qed

text \<open>
  C1 as stated fails when the upstream answers \<open>{"status": "success"}\<close> with no
  \<open>response\<close>: the call succeeds and there is no game list, but reading \<open>data.gameList\<close>
  throws and the route answers 500 with \<open>success\<close> false.
\<close>

theorem populate_games_bare_counterexample:
  "answer (fixture games_bare) ''/games'' = Inr None
   \<and> requests (snd (populate_games (fixture games_bare) small_state)) = [''/games'']
   \<and> httpStatus (fst (populate_games (fixture games_bare) small_state)) = 500
   \<and> \<not> success (fst (populate_games (fixture games_bare) small_state))
   \<and> count (fst (populate_games (fixture games_bare) small_state)) = None"
  by (simp add: populate_games_def fetch_games_split fixture_def games_bare_def bare_body_def
      unwrap_def caught_def respond_def small_state_def)

lemma fetch_games_result:
  "fst (fetch_games e s) =
     (if \<not> isl (answer e ''/games'') then answer e ''/games''
      else if \<not> isl (answer e ''/schedule'') then answer e ''/schedule''
      else answer e (''/games?date='' @ today e))"
  by (cases "answer e ''/games''"; cases "answer e ''/schedule''")
     (simp_all add: fetch_games_split)







section \<open>Properties of the query service\<close>

lemma counted_listed: "counted (listed xs)"
  by (simp add: counted_def listed_def respond_def)

lemma success_listed: "success (listed xs)"
  by (simp add: listed_def respond_def)

lemma not_success_caught: "\<not> success (caught msg m)"
  by (simp add: caught_def respond_def)

text \<open>
  C10. Every list-shaped read route (list players, list teams, list games, player search,
  top 10 players, random 10 teams, latest games, games by date): when it answers success,
  the \<open>count\<close> of the envelope is the length of its \<open>data\<close>.
\<close>

theorem list_envelopes_counted:
  "(success (list_players e s) \<longrightarrow> counted (list_players e s))
   \<and> (success (list_teams e s) \<longrightarrow> counted (list_teams e s))
   \<and> (success (list_games e s) \<longrightarrow> counted (list_games e s))
   \<and> (success (search_players e s q) \<longrightarrow> counted (search_players e s q))
   \<and> (success (top_players e s) \<longrightarrow> counted (top_players e s))
   \<and> (success (random_teams e s) \<longrightarrow> counted (random_teams e s))
   \<and> (success (latest_games e s) \<longrightarrow> counted (latest_games e s))
   \<and> (success (games_by_date e s d) \<longrightarrow> counted (games_by_date e s d))"
proof (intro conjI)
  show "success (list_players e s) \<longrightarrow> counted (list_players e s)"
    by (simp add: list_players_def counted_listed not_success_caught split: sum.splits)
  show "success (list_teams e s) \<longrightarrow> counted (list_teams e s)"
    by (simp add: list_teams_def counted_listed not_success_caught split: sum.splits)
  show "success (list_games e s) \<longrightarrow> counted (list_games e s)"
    by (simp add: list_games_def counted_listed not_success_caught split: sum.splits)
  show "success (search_players e s q) \<longrightarrow> counted (search_players e s q)"
    by (simp add: search_players_def counted_listed not_success_caught split: sum.splits)
  show "success (top_players e s) \<longrightarrow> counted (top_players e s)"
    by (simp add: top_players_def counted_listed not_success_caught split: sum.splits)
  show "success (random_teams e s) \<longrightarrow> counted (random_teams e s)"
    by (simp add: random_teams_def counted_listed not_success_caught split: sum.splits)
  show "success (latest_games e s) \<longrightarrow> counted (latest_games e s)"
    by (simp add: latest_games_def counted_listed not_success_caught split: sum.splits)
  show "success (games_by_date e s d) \<longrightarrow> counted (games_by_date e s d)"
    by (simp add: games_by_date_def counted_listed not_success_caught split: sum.splits)
qed

lemma fixture_find: "dbFind (fixture up) cond coll = Inr (filter cond coll)"
  by (simp add: dbFind_def fixture_def)

lemma fixture_sample: "aggregate_sample (fixture up) n coll = Inr (sample (\<lambda>i. 0) 0 n coll)"
  by (simp add: aggregate_sample_def fixture_def)

theorem list_envelopes_counted_witness:
  "counted (list_players (fixture all_down) small_state)
   \<and> counted (list_teams (fixture all_down) small_state)
   \<and> counted (list_games (fixture all_down) small_state)
   \<and> counted (search_players (fixture all_down) small_state ''bron'')
   \<and> counted (top_players (fixture all_down) small_state)
   \<and> counted (random_teams (fixture all_down) small_state)
   \<and> counted (latest_games (fixture all_down) small_state)
   \<and> counted (games_by_date (fixture all_down) small_state ''2025-01-15'')"
proof -
  have "success (list_players (fixture all_down) small_state)"
    and "success (list_teams (fixture all_down) small_state)"
    and "success (list_games (fixture all_down) small_state)"
    and "success (search_players (fixture all_down) small_state ''bron'')"
    and "success (top_players (fixture all_down) small_state)"
    and "success (random_teams (fixture all_down) small_state)"
    and "success (latest_games (fixture all_down) small_state)"
    and "success (games_by_date (fixture all_down) small_state ''2025-01-15'')"
    by (simp_all add: list_players_def list_teams_def list_games_def search_players_def
        top_players_def random_teams_def latest_games_def games_by_date_def fixture_find
        success_listed regex_i_def metachars_def ascii_char_def fixture_sample)
  then show ?thesis
    using list_envelopes_counted [of "fixture all_down" small_state "''bron''" "''2025-01-15''"]
    by simp
qed

lemma find_oid_None: "i \<notin> oid ` set coll \<Longrightarrow> find (\<lambda>d. oid d = i) coll = None"
  by (induction coll) auto

lemma find_oid_Some:
  "distinct (map oid coll) \<Longrightarrow> d \<in> set coll \<Longrightarrow> find (\<lambda>x. oid x = oid d) coll = Some d"
  by (induction coll) auto

lemma findById_wellformed:
  "dbFindErr e = None \<Longrightarrow> length i = 24 \<Longrightarrow> list_all hex_digit i \<Longrightarrow>
   findById e i coll = Inr (find (\<lambda>d. oid d = map lower_ascii i) coll)"
  by (simp add: findById_def castObjectId_def)

text \<open>
  C8, amended. Get by id, for players and for teams, with the database up, for an id that
  is a string of 24 hexadecimal digits (read without regard to the case of the digits):
  when a record is stored under it (identifiers being unique in a collection) the route
  answers the success envelope with exactly that record; when none is, it answers the 404
  envelope with \<open>success\<close> false.
\<close>

theorem get_by_id:
  assumes "dbFindErr e = None" and "length i = 24" and "list_all hex_digit i"
  shows "(distinct (map oid (players s)) \<and> d \<in> set (players s) \<and> oid d = map lower_ascii i \<longrightarrow>
            get_player e s i = (respond 200 True)\<lparr>data := Some d\<rparr>)
         \<and> (map lower_ascii i \<notin> oid ` set (players s) \<longrightarrow>
            get_player e s i = (respond 404 False)\<lparr>message := Some ''Player not found''\<rparr>)
         \<and> (distinct (map oid (teams s)) \<and> t \<in> set (teams s) \<and> oid t = map lower_ascii i \<longrightarrow>
            get_team e s i = (respond 200 True)\<lparr>data := Some t\<rparr>)
         \<and> (map lower_ascii i \<notin> oid ` set (teams s) \<longrightarrow>
            get_team e s i = (respond 404 False)\<lparr>message := Some ''Team not found''\<rparr>)"
  using find_oid_Some [of "players s" d] find_oid_Some [of "teams s" t]
  by (auto simp: get_player_def get_team_def findById_wellformed [OF assms] find_oid_None)

lemma lower_ids:
  "map lower_ascii ''65A1B2C3D4E5F60718293A4B'' = ''65a1b2c3d4e5f60718293a4b''"
  "map lower_ascii ''65b1b2c3d4e5f60718293a4b'' = ''65b1b2c3d4e5f60718293a4b''"
  by code_simp+

lemma hex_ids:
  "list_all hex_digit ''65A1B2C3D4E5F60718293A4B''"
  "list_all hex_digit ''65b1b2c3d4e5f60718293a4b''"
  by code_simp+

theorem get_by_id_witness:
  "get_player (fixture all_down) small_state ''65A1B2C3D4E5F60718293A4B'' =
     \<lparr>httpStatus = 200, success = True, message = None, count = None, data = Some lebron,
      error = None, breakdown = None\<rparr>
   \<and> get_team (fixture all_down) small_state ''65A1B2C3D4E5F60718293A4B'' =
     \<lparr>httpStatus = 404, success = False, message = Some ''Team not found'', count = None,
      data = None, error = None, breakdown = None\<rparr>
   \<and> get_team (fixture all_down) small_state ''65b1b2c3d4e5f60718293a4b'' =
     \<lparr>httpStatus = 200, success = True, message = None, count = None, data = Some lakers,
      error = None, breakdown = None\<rparr>
   \<and> get_player (fixture all_down) small_state ''65b1b2c3d4e5f60718293a4b'' =
     \<lparr>httpStatus = 404, success = False, message = Some ''Player not found'', count = None,
      data = None, error = None, breakdown = None\<rparr>"
proof -
  have e: "dbFindErr (fixture all_down) = None"
    by (simp add: fixture_def)
  have l: "length ''65A1B2C3D4E5F60718293A4B'' = 24" "length ''65b1b2c3d4e5f60718293a4b'' = 24"
    by simp_all
  have o: "oid lebron = ''65a1b2c3d4e5f60718293a4b''" "oid lakers = ''65b1b2c3d4e5f60718293a4b''"
    by (simp_all add: lebron_def lakers_def)
  show ?thesis
    using get_by_id [OF e l(1) hex_ids(1), of small_state lebron lakers, unfolded lower_ids]
      get_by_id [OF e l(2) hex_ids(2), of small_state lebron lakers, unfolded lower_ids] o
    by (simp add: small_state_def respond_def)
qed

text \<open>
  C8 as stated fails on an id that is no ObjectId: \<open>abc\<close> is absent from both collections,
  yet the cast of the route parameter throws and the route answers 500, not 404.
\<close>

theorem get_by_id_malformed_counterexample:
  "''abc'' \<notin> oid ` set (players small_state)
   \<and> httpStatus (get_player (fixture all_down) small_state ''abc'') = 500
   \<and> \<not> success (get_player (fixture all_down) small_state ''abc'')
   \<and> ''abc'' \<notin> oid ` set (teams small_state)
   \<and> httpStatus (get_team (fixture all_down) small_state ''abc'') = 500
   \<and> \<not> success (get_team (fixture all_down) small_state ''abc'')"
  by (simp add: get_player_def get_team_def findById_def castObjectId_def caught_def respond_def
      small_state_def lebron_def lakers_def)

section \<open>Properties of Refresh Players\<close>

lemma insertMany_always:
  "insertMany e (\<lambda>d. True) docs coll =
     (case dbInsertErr e of
        Some m \<Rightarrow> Inl m
      | None \<Rightarrow> Inr (coll @ map (stamp e) (enumerate 0 docs)))"
  by (simp add: insertMany_def list_all_iff)

lemma contents_stamp: "contents (map (stamp e) (enumerate n docs)) = docs"
proof -
  have "map (doc \<circ> stamp e) (enumerate n docs) = map snd (enumerate n docs)"
    by (rule map_cong) (simp_all add: stamp_def)
  then show ?thesis
    by (simp add: contents_def)
qed

lemma fetch_players_store: "same_store s (snd (fetch_players e s))"
  by (simp add: fetch_players_split same_store_def split: sum.splits)

lemma fetch_players_result:
  "fst (fetch_players e s) =
     (if \<not> isl (answer e ''/players'') then answer e ''/players'' else answer e ''/nba/players'')"
  by (cases "answer e ''/players''") (simp_all add: fetch_players_split)

text \<open>What Refresh Players leaves in the collection, up to identifiers and timestamps.\<close>

lemma populate_players_contents:
  "contents (players (snd (populate_players e s))) =
     (case fst (fetch_players e s) of
        Inl m \<Rightarrow> contents (players s)
      | Inr None \<Rightarrow> contents (players s)
      | Inr (Some dat) \<Rightarrow>
          (case playerList dat of
             None \<Rightarrow> contents (players s)
           | Some pl \<Rightarrow>
               if pl = [] then contents (players s)
               else (case dbDeleteErr e of
                       Some m \<Rightarrow> contents (players s)
                     | None \<Rightarrow>
                         (case dbInsertErr e of
                            Some m \<Rightarrow> []
                          | None \<Rightarrow> map playerToInsert pl))))"
proof -
  obtain r s1 where f: "fetch_players e s = (r, s1)"
    by (cases "fetch_players e s")
  have "players s1 = players s"
    using fetch_players_store [of s e] f by (simp add: same_store_def)
  then show ?thesis
    using f
    by (simp add: populate_players_def deleteMany_def insertMany_always Let_def contents_stamp
        contents_def [of "[]"] split: sum.splits option.splits)
qed

lemma populate_players_success:
  assumes "success (fst (populate_players e s))"
  shows "dbDeleteErr e = None \<and> dbInsertErr e = None \<and>
         (\<exists>dat pl. fst (fetch_players e s) = Inr (Some dat) \<and> playerList dat = Some pl \<and>
            pl \<noteq> [])"
proof -
  obtain r s1 where f: "fetch_players e s = (r, s1)"
    by (cases "fetch_players e s")
  show ?thesis
    using assms f
    by (simp add: populate_players_def deleteMany_def insertMany_always Let_def no_players_def
        respond_def caught_def split: sum.splits option.splits if_splits)
qed

lemma normalised_playerToInsert: "normalised u (playerToInsert u)"
  by (simp add: normalised_def playerToInsert_def js_or_def opt_chain_def
      split: option.splits)

text \<open>
  C7, amended. After a successful Refresh Players the collection holds, in the order of
  the upstream list, one record per upstream record, and each is \<open>normalised\<close>: points,
  assists and rebounds are zero; the name is the upstream name when that is present and
  not empty, and the upstream display name otherwise; the team is the upstream team's
  name when that is present and not empty, and \<open>Free Agent\<close> otherwise.
\<close>

theorem populate_players_normalised:
  assumes "fst (fetch_players e s) = Inr (Some dat)"
    and "playerList dat = Some pl"
    and "success (fst (populate_players e s))"
  shows "list_all2 normalised pl (contents (players (snd (populate_players e s))))"
proof -
  have "dbDeleteErr e = None" "dbInsertErr e = None" "pl \<noteq> []"
    using populate_players_success [OF assms(3)] assms(1,2) by auto
  then have "contents (players (snd (populate_players e s))) = map playerToInsert pl"
    using assms(1,2) by (simp add: populate_players_contents)
  then show ?thesis
    by (simp add: list_all2_map2 list_all2_same normalised_playerToInsert)
qed

lemma populate_players_fixture:
  "pl \<noteq> [] \<Longrightarrow>
   fst (fetch_players (fixture (players_up pl)) s) =
     Inr (Some (no_lists\<lparr>playerList := Some pl\<rparr>))
   \<and> success (fst (populate_players (fixture (players_up pl)) s))"
  by (simp add: fetch_players_split populate_players_def fixture_def players_up_def ok_body_def
      unwrap_def deleteMany_def insertMany_always respond_def)

theorem populate_players_normalised_witness:
  "list_all2 normalised [curry_up, nameless]
     (contents (players (snd (populate_players (fixture (players_up [curry_up, nameless]))
        small_state))))"
  using populate_players_normalised [of "fixture (players_up [curry_up, nameless])" small_state
      "no_lists\<lparr>playerList := Some [curry_up, nameless]\<rparr>" "[curry_up, nameless]"]
    populate_players_fixture [of "[curry_up, nameless]" small_state]
  by simp

text \<open>
  C7 as stated fails on an upstream record whose name is the empty string: the key is
  present, yet \<open>||\<close> takes the display name.
\<close>

theorem populate_players_empty_name_counterexample:
  "success (fst (populate_players (fixture (players_up [nameless])) empty_state))
   \<and> up_name nameless = Some []
   \<and> map p_name (contents (players (snd (populate_players (fixture (players_up [nameless]))
        empty_state)))) = [Some ''LeBron James'']
   \<and> \<not> list_all2 normalised_as_stated [nameless]
         (contents (players (snd (populate_players (fixture (players_up [nameless]))
            empty_state))))"
proof -
  have "contents (players (snd (populate_players (fixture (players_up [nameless]))
        empty_state))) = [playerToInsert nameless]"
    using populate_players_fixture [of "[nameless]" empty_state]
    by (simp add: populate_players_contents) (simp add: fixture_def)
  then show ?thesis
    using populate_players_fixture [of "[nameless]" empty_state]
    by (simp add: nameless_def playerToInsert_def js_or_def blank_upstream_player_def
        normalised_as_stated_def)
qed

section \<open>Properties of the player search\<close>

















section \<open>Properties of Refresh Teams\<close>

lemma fetch_division_step:
  "fetch_divisions e (d # ds) acc s =
     fetch_divisions e ds (acc @ map (tag d) (upstream_teams e d))
       (s\<lparr>requests := requests s @ [d_endpoint d]\<rparr>)"
  by (simp add: fetchFromRapidAPI_def upstream_teams_def split: sum.splits option.splits)

lemma fetch_divisions_eq:
  "fetch_divisions e ds acc s =
     (acc @ concat (map (\<lambda>d. map (tag d) (upstream_teams e d)) ds),
      s\<lparr>requests := requests s @ map d_endpoint ds\<rparr>)"
proof (induction ds arbitrary: acc s)
  case Nil
  then show ?case by simp
next
  case (Cons d ds)
  show ?case
    by (simp only: fetch_division_step Cons.IH) simp
qed

lemma upstream_teams_empty: "(upstream_teams e d = []) = nothing_from e d"
  by (simp add: upstream_teams_def nothing_from_def split: sum.splits option.splits)

lemma accumulator_empty:
  "(fst (fetch_divisions e ds [] s) = []) = (\<forall>d\<in>set ds. nothing_from e d)"
  by (simp add: fetch_divisions_eq upstream_teams_empty)

lemma fetch_divisions_store: "same_store s (snd (fetch_divisions e ds acc s))"
  by (simp add: fetch_divisions_eq same_store_def)

lemma populate_teams_none:
  assumes "fst (fetch_divisions e divisions [] s) = []"
  shows "fst (populate_teams e s) =
           (respond 404 False)\<lparr>message := Some ''No teams found in API response''\<rparr>"
    and "same_store s (snd (populate_teams e s))"
proof -
  obtain s1 where f: "fetch_divisions e divisions [] s = ([], s1)"
    using assms by (cases "fetch_divisions e divisions [] s") simp
  have "same_store s s1"
    using fetch_divisions_store [of s e divisions "[]"] f by simp
  with f show "fst (populate_teams e s) =
           (respond 404 False)\<lparr>message := Some ''No teams found in API response''\<rparr>"
    and "same_store s (snd (populate_teams e s))"
    by (simp_all add: populate_teams_def)
qed

lemma populate_teams_some:
  assumes "fst (fetch_divisions e divisions [] s) = allTeams" and "allTeams \<noteq> []"
    and "dbDeleteErr e = None" and "dbInsertErr e = None"
  shows "teams (snd (populate_teams e s)) = map (stamp e) (enumerate 0 (map teamToInsert allTeams))"
    and "success (fst (populate_teams e s))"
    and "count (fst (populate_teams e s)) = Some (length allTeams)"
    and "breakdown (fst (populate_teams e s)) = Some (breakdown_of allTeams)"
proof -
  obtain s1 where f: "fetch_divisions e divisions [] s = (allTeams, s1)"
    using assms(1) by (cases "fetch_divisions e divisions [] s") simp
  with assms(2-4)
  show "teams (snd (populate_teams e s)) = map (stamp e) (enumerate 0 (map teamToInsert allTeams))"
    and "success (fst (populate_teams e s))"
    and "count (fst (populate_teams e s)) = Some (length allTeams)"
    and "breakdown (fst (populate_teams e s)) = Some (breakdown_of allTeams)"
    by (simp_all add: populate_teams_def deleteMany_def insertMany_always Let_def respond_def)
qed

lemma accumulator_pairs:
  "fst (fetch_divisions e divisions [] s) = map (\<lambda>p. tag (fst p) (snd p)) (upstream_pairs e)"
  by (simp add: fetch_divisions_eq upstream_pairs_def map_concat comp_def)

lemma stored_as_teamToInsert: "stored_as p (teamToInsert (tag (fst p) (snd p)))"
  by (simp add: stored_as_def teamToInsert_def tag_def)

text \<open>
  C5. Refresh Teams, after the loop over the 6 divisions. The accumulator is empty exactly
  when every division either failed or returned no teams; then the route answers 404 with
  the no-data message and the collections are what they were. Otherwise, when the database
  is up, the route succeeds and the Team collection is what the bulk insert of the
  normalised records into the cleared collection gives: it holds none of the old records
  and, in the order of the loop, one record per team the division endpoints returned, with
  that team's identifier, name, short name, abbreviation, logos and link, the conference
  and name of the division it was returned under, and no wins and no losses.
\<close>

theorem populate_teams_empty_or_replace:
  "((fst (fetch_divisions e divisions [] s) = []) = (\<forall>d\<in>set divisions. nothing_from e d))
   \<and> (fst (fetch_divisions e divisions [] s) = [] \<longrightarrow>
        fst (populate_teams e s) =
          (respond 404 False)\<lparr>message := Some ''No teams found in API response''\<rparr>
        \<and> same_store s (snd (populate_teams e s)))
   \<and> (fst (fetch_divisions e divisions [] s) \<noteq> [] \<and> dbDeleteErr e = None \<and> dbInsertErr e = None \<longrightarrow>
        success (fst (populate_teams e s))
        \<and> Inr (teams (snd (populate_teams e s))) =
            insertMany e (\<lambda>d. True) (map teamToInsert (fst (fetch_divisions e divisions [] s))) []
        \<and> contents (teams (snd (populate_teams e s))) =
            map teamToInsert (fst (fetch_divisions e divisions [] s))
        \<and> list_all2 stored_as (upstream_pairs e) (contents (teams (snd (populate_teams e s)))))"
proof (intro conjI impI)
  show "(fst (fetch_divisions e divisions [] s) = []) = (\<forall>d\<in>set divisions. nothing_from e d)"
    by (rule accumulator_empty)
next
  assume "fst (fetch_divisions e divisions [] s) = []"
  then show "fst (populate_teams e s) =
          (respond 404 False)\<lparr>message := Some ''No teams found in API response''\<rparr>"
    and "same_store s (snd (populate_teams e s))"
    by (rule populate_teams_none)+
next
  assume a: "fst (fetch_divisions e divisions [] s) \<noteq> [] \<and> dbDeleteErr e = None \<and>
    dbInsertErr e = None"
  then have t: "teams (snd (populate_teams e s)) =
      map (stamp e) (enumerate 0 (map teamToInsert (fst (fetch_divisions e divisions [] s))))"
    and ok: "success (fst (populate_teams e s))"
    using populate_teams_some [of e s "fst (fetch_divisions e divisions [] s)"] by simp_all
  show "success (fst (populate_teams e s))"
    by (rule ok)
  show "Inr (teams (snd (populate_teams e s))) =
            insertMany e (\<lambda>d. True) (map teamToInsert (fst (fetch_divisions e divisions [] s))) []"
    using a t by (simp add: insertMany_always)
  show c: "contents (teams (snd (populate_teams e s))) =
            map teamToInsert (fst (fetch_divisions e divisions [] s))"
    using t by (simp add: contents_stamp)
  show "list_all2 stored_as (upstream_pairs e) (contents (teams (snd (populate_teams e s))))"
    unfolding c accumulator_pairs
    by (simp add: list_all2_map2 list_all2_same stored_as_teamToInsert)
qed

lemma answer_division_up:
  "d \<in> set divisions \<Longrightarrow>
   answer (fixture (division_up k)) (d_endpoint d) =
     Inr (Some (no_lists\<lparr>teamList :=
       Some (replicate k (blank_team\<lparr>ut_href := Some (d_endpoint d)\<rparr>))\<rparr>))"
  by (simp add: fixture_def division_up_def ok_body_def unwrap_def)

lemma upstream_teams_division_up:
  "d \<in> set divisions \<Longrightarrow>
   upstream_teams (fixture (division_up k)) d = replicate k (blank_team\<lparr>ut_href := Some (d_endpoint d)\<rparr>)"
  by (simp add: upstream_teams_def answer_division_up no_lists_def)

lemma upstream_teams_atlantic_only:
  "upstream_teams (fixture atlantic_only) d =
     (if d_endpoint d = ''/nba-atlantic-team-list'' then [celtics_up] else [])"
  by (simp add: upstream_teams_def fixture_def atlantic_only_def ok_body_def all_down_def
      unwrap_def no_lists_def)

lemma stored_as_celtics: "stored_as (hd divisions, celtics_up) r \<Longrightarrow> r = celtics_doc"
  by (cases r) (simp add: stored_as_def celtics_up_def celtics_doc_def divisions_def)

theorem populate_teams_empty_or_replace_witness:
  "fst (populate_teams (fixture all_down) small_state) =
     \<lparr>httpStatus = 404, success = False, message = Some ''No teams found in API response'',
      count = None, data = None, error = None, breakdown = None\<rparr>
   \<and> teams (snd (populate_teams (fixture all_down) small_state)) = [lakers]
   \<and> success (fst (populate_teams (fixture atlantic_only) small_state))
   \<and> contents (teams (snd (populate_teams (fixture atlantic_only) small_state))) = [celtics_doc]"
proof -
  have n: "nothing_from (fixture all_down) d" for d
    by (simp add: nothing_from_def fixture_def all_down_def unwrap_def)
  have p: "upstream_pairs (fixture atlantic_only) = [(hd divisions, celtics_up)]"
    by (simp add: upstream_pairs_def upstream_teams_atlantic_only) (simp add: divisions_def)
  then have a: "fst (fetch_divisions (fixture atlantic_only) divisions [] small_state) \<noteq> []"
    by (simp add: accumulator_pairs)
  have d: "dbDeleteErr (fixture atlantic_only) = None \<and> dbInsertErr (fixture atlantic_only) = None"
    by (simp add: fixture_def)
  have "list_all2 stored_as (upstream_pairs (fixture atlantic_only))
      (contents (teams (snd (populate_teams (fixture atlantic_only) small_state))))"
    and ok: "success (fst (populate_teams (fixture atlantic_only) small_state))"
    using populate_teams_empty_or_replace [of "fixture atlantic_only" small_state] a d
    by blast+
  then have c: "contents (teams (snd (populate_teams (fixture atlantic_only) small_state))) =
      [celtics_doc]"
    unfolding p by (auto simp: list_all2_Cons1 dest: stored_as_celtics)
  show ?thesis
    using populate_teams_empty_or_replace [of "fixture all_down" small_state] n c ok
    by (simp add: respond_def same_store_def small_state_def)
qed

lemma returns_teams_length: "returns_teams e d k \<Longrightarrow> length (upstream_teams e d) = k"
  by (auto simp: returns_teams_def upstream_teams_def split: sum.splits option.splits)

lemma failed_upstream_teams: "isl (answer e (d_endpoint d)) \<Longrightarrow> upstream_teams e d = []"
  by (cases "answer e (d_endpoint d)") (simp_all add: upstream_teams_def)

lemma accumulator_docs:
  "map teamToInsert (fst (fetch_divisions e ds [] s)) = concat (map (division_docs e) ds)"
  by (simp add: fetch_divisions_eq map_concat comp_def division_docs_def [abs_def])

lemma in_division_concat:
  "in_division (concat (map (\<lambda>d. map (tag d) (f d)) ds)) n =
     sum_list (map (\<lambda>d. if d_name d = n then length (f d) else 0) ds)"
  by (induction ds) (simp_all add: in_division_def tag_def comp_def)

lemma concat_without:
  "f d0 = [] \<Longrightarrow> concat (map f (filter (\<lambda>d. d \<noteq> d0) ds)) = concat (map f ds)"
  by (induction ds) simp_all

lemma length_accumulator:
  "length (fst (fetch_divisions e ds [] s)) = sum_list (map (\<lambda>d. length (upstream_teams e d)) ds)"
  by (simp add: fetch_divisions_eq length_concat comp_def)

lemma sum_list_all: "\<forall>d\<in>set ds. f d = (k::nat) \<Longrightarrow> sum_list (map f ds) = length ds * k"
  by (induction ds) simp_all

lemma sum_list_all_but:
  "distinct ds \<Longrightarrow> d0 \<in> set ds \<Longrightarrow> f d0 = (0::nat) \<Longrightarrow> \<forall>d\<in>set ds. d \<noteq> d0 \<longrightarrow> f d = k \<Longrightarrow>
   sum_list (map f ds) = (length ds - 1) * k"
proof (induction ds)
  case Nil
  then show ?case by simp
next
  case (Cons d ds)
  show ?case
  proof (cases "d = d0")
    case True
    then have "\<forall>x\<in>set ds. f x = k"
      using Cons.prems by auto
    then show ?thesis
      using True Cons.prems(3) by (simp add: sum_list_all)
  next
    case False
    then have "sum_list (map f ds) = (length ds - 1) * k" and "f d = k" and "ds \<noteq> []"
      using Cons by auto
    then show ?thesis
      by (cases ds) simp_all
  qed
qed

lemma distinct_divisions: "distinct divisions" and length_divisions: "length divisions = 6"
  by (simp_all add: divisions_def)

lemma breakdown_all:
  assumes "\<forall>d\<in>set divisions. returns_teams e d k"
  shows "breakdown_of (fst (fetch_divisions e divisions [] s)) =
           \<lparr>Atlantic = k, Central = k, Southeast = k, Northwest = k, Pacific = k, Southwest = k\<rparr>"
proof -
  have "\<forall>d\<in>set divisions. length (upstream_teams e d) = k"
    using assms returns_teams_length by blast
  then show ?thesis
    by (simp add: fetch_divisions_eq breakdown_of_def in_division_concat) (simp add: divisions_def)
qed

lemma division_docs_tagged:
  "x \<in> set (division_docs e d) \<Longrightarrow>
   t_division x = Some (d_name d) \<and> t_conference x = Some (d_conference d)"
  by (auto simp: division_docs_def teamToInsert_def tag_def)

text \<open>
  C3, amended. Refresh Teams with a database that does not throw and \<open>k > 0\<close>. When all 6
  division endpoints succeed and each returns \<open>k\<close> teams, the route succeeds with count
  \<open>6k\<close>, the Team collection holds exactly \<open>6k\<close> records, namely the records of the 6
  divisions in order, and the counts of the breakdown sum to \<open>6k\<close>. When one division
  endpoint fails and the 5 others return \<open>k\<close> teams each, the route still succeeds and the
  collection holds exactly the records of the 5 others. Every record of a division carries
  that division's name and conference: Atlantic, Central and Southeast with East,
  Northwest, Pacific and Southwest with West.
\<close>

theorem populate_teams_all_divisions:
  assumes "0 < k" and "dbDeleteErr e = None" and "dbInsertErr e = None"
  shows "((\<forall>d\<in>set divisions. returns_teams e d k) \<longrightarrow>
            success (fst (populate_teams e s))
            \<and> count (fst (populate_teams e s)) = Some (6 * k)
            \<and> length (teams (snd (populate_teams e s))) = 6 * k
            \<and> contents (teams (snd (populate_teams e s))) = concat (map (division_docs e) divisions)
            \<and> (\<exists>b. breakdown (fst (populate_teams e s)) = Some b
                  \<and> Atlantic b + Central b + Southeast b + Northwest b + Pacific b + Southwest b
                      = 6 * k))
         \<and> (\<forall>d0\<in>set divisions.
              isl (answer e (d_endpoint d0)) \<and>
              (\<forall>d\<in>set divisions. d \<noteq> d0 \<longrightarrow> returns_teams e d k) \<longrightarrow>
                success (fst (populate_teams e s))
                \<and> length (teams (snd (populate_teams e s))) = 5 * k
                \<and> contents (teams (snd (populate_teams e s))) =
                    concat (map (division_docs e) (filter (\<lambda>d. d \<noteq> d0) divisions)))
         \<and> (\<forall>d\<in>set divisions. \<forall>x\<in>set (division_docs e d).
              t_division x = Some (d_name d) \<and> t_conference x = Some (d_conference d))
         \<and> division_tags =
             [(''Atlantic'', ''East''), (''Central'', ''East''), (''Southeast'', ''East''),
              (''Northwest'', ''West''), (''Pacific'', ''West''), (''Southwest'', ''West'')]"
proof -
  let ?acc = "fst (fetch_divisions e divisions [] s)"
  have repl: "success (fst (populate_teams e s))
      \<and> count (fst (populate_teams e s)) = Some n
      \<and> length (teams (snd (populate_teams e s))) = n
      \<and> contents (teams (snd (populate_teams e s))) = concat (map (division_docs e) divisions)
      \<and> breakdown (fst (populate_teams e s)) = Some (breakdown_of ?acc)"
    if "length ?acc = n" and "0 < n" for n
  proof -
    have ne: "?acc \<noteq> []"
      using that by auto
    have t: "teams (snd (populate_teams e s)) = map (stamp e) (enumerate 0 (map teamToInsert ?acc))"
      using populate_teams_some(1) [OF refl ne assms(2,3)] .
    have "contents (teams (snd (populate_teams e s))) = map teamToInsert ?acc"
      by (simp only: t contents_stamp)
    then have c: "contents (teams (snd (populate_teams e s))) = concat (map (division_docs e) divisions)"
      by (simp only: accumulator_docs)
    have l: "length (teams (snd (populate_teams e s))) = n"
      using that(1) by (simp add: t)
    show ?thesis
      using populate_teams_some(2-4) [OF refl ne assms(2,3)] c l that(1) by simp
  qed
  have A: "success (fst (populate_teams e s))
            \<and> count (fst (populate_teams e s)) = Some (6 * k)
            \<and> length (teams (snd (populate_teams e s))) = 6 * k
            \<and> contents (teams (snd (populate_teams e s))) = concat (map (division_docs e) divisions)
            \<and> (\<exists>b. breakdown (fst (populate_teams e s)) = Some b
                  \<and> Atlantic b + Central b + Southeast b + Northwest b + Pacific b + Southwest b
                      = 6 * k)"
    if h: "\<forall>d\<in>set divisions. returns_teams e d k"
  proof -
    have "\<forall>d\<in>set divisions. length (upstream_teams e d) = k"
      using h returns_teams_length by blast
    then have "length ?acc = 6 * k"
      using sum_list_all [of divisions "\<lambda>d. length (upstream_teams e d)" k]
      by (simp add: length_accumulator length_divisions)
    then show ?thesis
      using repl [of "6 * k"] assms(1) breakdown_all [OF h, of s] by simp
  qed
  have B: "success (fst (populate_teams e s))
                \<and> length (teams (snd (populate_teams e s))) = 5 * k
                \<and> contents (teams (snd (populate_teams e s))) =
                    concat (map (division_docs e) (filter (\<lambda>d. d \<noteq> d0) divisions))"
    if d0: "d0 \<in> set divisions"
      and h: "isl (answer e (d_endpoint d0)) \<and>
              (\<forall>d\<in>set divisions. d \<noteq> d0 \<longrightarrow> returns_teams e d k)" for d0
  proof -
    have z: "upstream_teams e d0 = []"
      using h failed_upstream_teams by blast
    have "\<forall>d\<in>set divisions. d \<noteq> d0 \<longrightarrow> length (upstream_teams e d) = k"
      using h returns_teams_length by blast
    then have "sum_list (map (\<lambda>d. length (upstream_teams e d)) divisions) = (length divisions - 1) * k"
      using sum_list_all_but [OF distinct_divisions d0, of "\<lambda>d. length (upstream_teams e d)" k] z
      by simp
    then have "length ?acc = 5 * k"
      by (simp add: length_accumulator length_divisions)
    moreover have "concat (map (division_docs e) (filter (\<lambda>d. d \<noteq> d0) divisions)) =
        concat (map (division_docs e) divisions)"
      using z by (intro concat_without) (simp add: division_docs_def)
    ultimately show ?thesis
      using repl [of "5 * k"] assms(1) by simp
  qed
  have C: "\<forall>d\<in>set divisions. \<forall>x\<in>set (division_docs e d).
              t_division x = Some (d_name d) \<and> t_conference x = Some (d_conference d)"
    using division_docs_tagged by blast
  have D: "division_tags =
             [(''Atlantic'', ''East''), (''Central'', ''East''), (''Southeast'', ''East''),
              (''Northwest'', ''West''), (''Pacific'', ''West''), (''Southwest'', ''West'')]"
    by (simp add: division_tags_def divisions_def)
  show ?thesis
    using A B C D by blast
qed


lemma returns_division_up: "d \<in> set divisions \<Longrightarrow> returns_teams (fixture (division_up k)) d k"
  by (simp add: returns_teams_def answer_division_up no_lists_def)

lemma answer_division_up_but:
  "answer (fixture (division_up_but down k)) ep =
     (if ep = down then Inl ''Request failed with status code 404''
      else answer (fixture (division_up k)) ep)"
  by (simp add: fixture_def division_up_but_def all_down_def unwrap_def)

lemma returns_division_up_but:
  "d \<in> set divisions \<Longrightarrow> d_endpoint d \<noteq> down \<Longrightarrow>
   returns_teams (fixture (division_up_but down k)) d k"
  using returns_division_up [of d k]
  by (simp add: returns_teams_def answer_division_up_but)

theorem populate_teams_all_divisions_witness:
  "success (fst (populate_teams (fixture (division_up 1)) small_state))
   \<and> length (teams (snd (populate_teams (fixture (division_up 1)) small_state))) = 6
   \<and> success (fst (populate_teams (fixture (division_up_but ''/nba-pacific-team-list'' 1))
        small_state))
   \<and> length (teams (snd (populate_teams (fixture (division_up_but ''/nba-pacific-team-list'' 1))
        small_state))) = 5"
proof -
  let ?a = "fixture (division_up 1)"
  let ?b = "fixture (division_up_but ''/nba-pacific-team-list'' 1)"
  have k: "0 < (1::nat)"
    by simp
  have da: "dbDeleteErr ?a = None" and ia: "dbInsertErr ?a = None"
    and db: "dbDeleteErr ?b = None" and ib: "dbInsertErr ?b = None"
    by (simp_all add: fixture_def)
  have all: "\<forall>d\<in>set divisions. returns_teams ?a d 1"
    using returns_division_up by blast
  have p: "pacific \<in> set divisions"
    by (simp add: pacific_def divisions_def)
  have down: "isl (answer ?b (d_endpoint pacific))"
    by (simp add: answer_division_up_but pacific_def)
  have others: "\<forall>d\<in>set divisions. d \<noteq> pacific \<longrightarrow> returns_teams ?b d 1"
  proof (intro ballI impI)
    fix d assume "d \<in> set divisions" and "d \<noteq> pacific"
    then have "d_endpoint d \<noteq> ''/nba-pacific-team-list''"
      by (auto simp: divisions_def pacific_def)
    with \<open>d \<in> set divisions\<close> show "returns_teams ?b d 1"
      by (rule returns_division_up_but)
  qed
  show ?thesis
    using populate_teams_all_divisions [OF k da ia, of small_state]
      populate_teams_all_divisions [OF k db ib, of small_state] all p down others
    by simp
qed

text \<open>
  C3 as stated fails at \<open>k = 0\<close>: when the 6 endpoints succeed with empty lists the route
  answers 404 and the collection keeps its old record, so it does not hold \<open>6k = 0\<close>
  records.
\<close>

theorem populate_teams_no_teams_counterexample:
  "list_all (\<lambda>d. returns_teams (fixture (division_up 0)) d 0) divisions
   \<and> \<not> success (fst (populate_teams (fixture (division_up 0)) small_state))
   \<and> teams (snd (populate_teams (fixture (division_up 0)) small_state)) = [lakers]"
proof -
  have r: "list_all (\<lambda>d. returns_teams (fixture (division_up 0)) d 0) divisions"
    using returns_division_up [of _ 0] by (simp add: list_all_iff)
  have "\<forall>d\<in>set divisions. nothing_from (fixture (division_up 0)) d"
    by (simp add: nothing_from_def answer_division_up no_lists_def)
  then have "fst (fetch_divisions (fixture (division_up 0)) divisions [] small_state) = []"
    by (simp only: accumulator_empty)
  then have "fst (populate_teams (fixture (division_up 0)) small_state) =
           (respond 404 False)\<lparr>message := Some ''No teams found in API response''\<rparr>"
    and "same_store small_state (snd (populate_teams (fixture (division_up 0)) small_state))"
    by (rule populate_teams_none)+
  then show ?thesis
    using r by (simp add: respond_def same_store_def small_state_def)
qed

section \<open>Refreshing twice\<close>

lemma populate_teams_contents:
  "contents (teams (snd (populate_teams e s))) =
     (if concat (map (division_docs e) divisions) = [] then contents (teams s)
      else (case dbDeleteErr e of
              Some m \<Rightarrow> contents (teams s)
            | None \<Rightarrow>
                (case dbInsertErr e of
                   Some m \<Rightarrow> []
                 | None \<Rightarrow> concat (map (division_docs e) divisions))))"
proof -
  obtain acc s1 where f: "fetch_divisions e divisions [] s = (acc, s1)"
    by (cases "fetch_divisions e divisions [] s")
  have a: "map teamToInsert acc = concat (map (division_docs e) divisions)"
    using accumulator_docs [of e divisions s] f by simp
  then have n: "(concat (map (division_docs e) divisions) = []) = (acc = [])"
    by (metis map_is_Nil_conv)
  have "teams s1 = teams s"
    using fetch_divisions_store [of s e divisions "[]"] f by (simp add: same_store_def)
  then show ?thesis
    unfolding n a [symmetric] using f
    by (simp add: populate_teams_def deleteMany_def insertMany_always Let_def contents_stamp
        contents_def [of "[]"] split: option.splits)
qed

lemma populate_games_contents:
  "contents (games (snd (populate_games e s))) =
     (case fst (fetch_games e s) of
        Inl m \<Rightarrow> contents (games s)
      | Inr None \<Rightarrow> contents (games s)
      | Inr (Some dat) \<Rightarrow>
          (case gameList dat of
             None \<Rightarrow> contents (games s)
           | Some gl \<Rightarrow>
               if gl = [] then contents (games s)
               else (case dbDeleteErr e of
                       Some m \<Rightarrow> contents (games s)
                     | None \<Rightarrow>
                         if \<not> list_all valid_game (map (gameToInsert e) gl) then []
                         else (case dbInsertErr e of
                                 Some m \<Rightarrow> []
                               | None \<Rightarrow> map (gameToInsert e) gl))))"
proof -
  obtain r s1 where f: "fetch_games e s = (r, s1)"
    by (cases "fetch_games e s")
  have "games s1 = games s"
    using fetch_games_store [of s e] f by (simp add: same_store_def)
  then show ?thesis
    using f
    by (simp add: populate_games_def deleteMany_def insertMany_def Let_def contents_stamp
        contents_def [of "[]"] split: sum.splits option.splits)
qed

lemma division_docs_cong: "httpGet e2 = httpGet e1 \<Longrightarrow> division_docs e2 = division_docs e1"
  by (rule ext) (simp add: division_docs_def upstream_teams_def)

lemma gameToInsert_cong: "parseDate e2 = parseDate e1 \<Longrightarrow> gameToInsert e2 = gameToInsert e1"
  by (rule ext) (simp add: gameToInsert_def newDate_def split: option.splits)

lemma refresh_teams_twice:
  assumes "httpGet e2 = httpGet e1"
    and "dbDeleteErr e2 = dbDeleteErr e1" and "dbInsertErr e2 = dbInsertErr e1"
  shows "contents (teams (snd (populate_teams e2 (snd (populate_teams e1 s))))) =
           contents (teams (snd (populate_teams e1 s)))"
proof -

  define T where "T c =
     (if concat (map (division_docs e1) divisions) = [] then c
      else (case dbDeleteErr e1 of
              Some m \<Rightarrow> c
            | None \<Rightarrow>
                (case dbInsertErr e1 of
                   Some m \<Rightarrow> []
                 | None \<Rightarrow> concat (map (division_docs e1) divisions))))" for c
  have dd: "division_docs e2 = division_docs e1"
    using assms(1) by (rule division_docs_cong)
  have t1: "contents (teams (snd (populate_teams e1 s'))) = T (contents (teams s'))" for s'
    by (simp only: populate_teams_contents T_def)
  have t2: "contents (teams (snd (populate_teams e2 s'))) = T (contents (teams s'))" for s'
    by (simp only: populate_teams_contents T_def dd assms(2,3))
  have "T (T c) = T c" for c
    by (simp add: T_def split: option.splits)
  then show "contents (teams (snd (populate_teams e2 (snd (populate_teams e1 s))))) =
           contents (teams (snd (populate_teams e1 s)))"
    by (simp only: t1 t2)
qed

lemma refresh_players_twice:
  assumes "httpGet e2 = httpGet e1"
    and "dbDeleteErr e2 = dbDeleteErr e1" and "dbInsertErr e2 = dbInsertErr e1"
  shows "contents (players (snd (populate_players e2 (snd (populate_players e1 s))))) =
           contents (players (snd (populate_players e1 s)))"
proof -
  define r where "r = fst (fetch_players e1 s)"
  define P where "P c =
     (case r of
        Inl m \<Rightarrow> c
      | Inr None \<Rightarrow> c
      | Inr (Some dat) \<Rightarrow>
          (case playerList dat of
             None \<Rightarrow> c
           | Some pl \<Rightarrow>
               if pl = [] then c
               else (case dbDeleteErr e1 of
                       Some m \<Rightarrow> c
                     | None \<Rightarrow>
                         (case dbInsertErr e1 of
                            Some m \<Rightarrow> []
                          | None \<Rightarrow> map playerToInsert pl))))" for c
  have f: "fst (fetch_players e s') = r" if "httpGet e = httpGet e1" for e s'
    using that by (simp add: r_def fetch_players_result)
  have p1: "contents (players (snd (populate_players e1 s'))) = P (contents (players s'))" for s'
    by (simp only: populate_players_contents P_def f [OF refl])
  have p2: "contents (players (snd (populate_players e2 s'))) = P (contents (players s'))" for s'
    by (simp only: populate_players_contents P_def f [OF assms(1)] assms(2,3))
  have "P (P c) = P c" for c
    by (simp add: P_def split: sum.splits option.splits)
  then show "contents (players (snd (populate_players e2 (snd (populate_players e1 s))))) =
           contents (players (snd (populate_players e1 s)))"
    by (simp only: p1 p2)
qed

lemma refresh_games_twice:
  assumes "httpGet e2 = httpGet e1"
    and "dbDeleteErr e2 = dbDeleteErr e1" and "dbInsertErr e2 = dbInsertErr e1"
  shows "today e2 = today e1 \<and> parseDate e2 = parseDate e1 \<Longrightarrow>
            contents (games (snd (populate_games e2 (snd (populate_games e1 s))))) =
              contents (games (snd (populate_games e1 s)))"
proof -
  assume d: "today e2 = today e1 \<and> parseDate e2 = parseDate e1"
  define r where "r = fst (fetch_games e1 s)"
  define G where "G c =
     (case r of
        Inl m \<Rightarrow> c
      | Inr None \<Rightarrow> c
      | Inr (Some dat) \<Rightarrow>
          (case gameList dat of
             None \<Rightarrow> c
           | Some gl \<Rightarrow>
               if gl = [] then c
               else (case dbDeleteErr e1 of
                       Some m \<Rightarrow> c
                     | None \<Rightarrow>
                         if \<not> list_all valid_game (map (gameToInsert e1) gl) then []
                         else (case dbInsertErr e1 of
                                 Some m \<Rightarrow> []
                               | None \<Rightarrow> map (gameToInsert e1) gl))))" for c
  have g: "gameToInsert e2 = gameToInsert e1"
    using d by (intro gameToInsert_cong) simp
  have f: "fst (fetch_games e s') = r"
    if "httpGet e = httpGet e1" and "today e = today e1" for e s'
    using that by (simp add: r_def fetch_games_result)
  have g1: "contents (games (snd (populate_games e1 s'))) = G (contents (games s'))" for s'
    by (simp only: populate_games_contents G_def f [OF refl refl])
  have g2: "contents (games (snd (populate_games e2 s'))) = G (contents (games s'))" for s'
    using d by (simp only: populate_games_contents G_def f [OF assms(1)] assms(2,3) g)
  have "G (G c) = G c" for c
    by (simp add: G_def split: sum.splits option.splits)
  then show "contents (games (snd (populate_games e2 (snd (populate_games e1 s))))) =
              contents (games (snd (populate_games e1 s)))"
    by (simp only: g1 g2)

qed


text \<open>
  C6, amended. Every refresh operation run twice in a row against the same upstream, with
  a database that behaves alike in both runs, leaves after the second run the collection
  contents it left after the first, up to the \<open>_id\<close> and \<open>lastUpdated\<close> of the records; for
  the games, when both runs fall on the same calendar date (the date the third endpoint is
  qualified with) and parse dates alike.
\<close>

theorem refresh_twice_same_contents:
  assumes "httpGet e2 = httpGet e1"
    and "dbDeleteErr e2 = dbDeleteErr e1" and "dbInsertErr e2 = dbInsertErr e1"
  shows "contents (teams (snd (populate_teams e2 (snd (populate_teams e1 s))))) =
           contents (teams (snd (populate_teams e1 s)))
         \<and> contents (players (snd (populate_players e2 (snd (populate_players e1 s))))) =
           contents (players (snd (populate_players e1 s)))
         \<and> (today e2 = today e1 \<and> parseDate e2 = parseDate e1 \<longrightarrow>
            contents (games (snd (populate_games e2 (snd (populate_games e1 s))))) =
              contents (games (snd (populate_games e1 s))))"
  using refresh_teams_twice [OF assms] refresh_players_twice [OF assms]
    refresh_games_twice [OF assms]
  by blast

lemma answer_full_up:
  "answer (fixture full_up) ''/players'' = Inr (Some (no_lists\<lparr>playerList := Some [curry_up]\<rparr>))"
  "answer (fixture full_up) ''/games'' =
     Inr (Some (no_lists\<lparr>gameList := Some [game_on ''401'' ''2025-01-15T19:00:00.000Z'']\<rparr>))"
  "answer (fixture full_up) ''/nba-atlantic-team-list'' =
     Inr (Some (no_lists\<lparr>teamList :=
       Some [blank_team\<lparr>ut_href := Some ''/nba-atlantic-team-list''\<rparr>]\<rparr>))"
  by (simp_all add: fixture_def full_up_def division_up_def divisions_def ok_body_def unwrap_def)

lemma success_full_up:
  "success (fst (populate_teams (fixture full_up) s))"
  "success (fst (populate_players (fixture full_up) s))"
  "success (fst (populate_games (fixture full_up) s))"
proof -
  have d: "dbDeleteErr (fixture full_up) = None" "dbInsertErr (fixture full_up) = None"
    by (simp_all add: fixture_def)
  have "\<not> nothing_from (fixture full_up) (hd divisions)"
    by (simp add: nothing_from_def divisions_def answer_full_up(3) no_lists_def)
  then have "fst (fetch_divisions (fixture full_up) divisions [] s) \<noteq> []"
    by (simp only: accumulator_empty) (auto simp: divisions_def)
  then show "success (fst (populate_teams (fixture full_up) s))"
    using populate_teams_some(2) [OF refl _ d] by blast
  show "success (fst (populate_players (fixture full_up) s))"
    by (simp add: populate_players_def fetch_players_split answer_full_up(1) no_lists_def
        deleteMany_def insertMany_always d respond_def)
  have "valid_game (gameToInsert (fixture full_up) (game_on ''401'' ''2025-01-15T19:00:00.000Z''))"
    by (simp add: valid_game_def gameToInsert_def game_on_def newDate_def fixture_def)
  then show "success (fst (populate_games (fixture full_up) s))"
    by (simp add: populate_games_def fetch_games_split answer_full_up(2) no_lists_def
        deleteMany_def insertMany_def d respond_def)
qed

theorem refresh_twice_same_contents_witness:
  "success (fst (populate_teams (fixture full_up) small_state))
   \<and> contents (teams (snd (populate_teams (moments_later (fixture full_up))
       (snd (populate_teams (fixture full_up) small_state))))) =
     contents (teams (snd (populate_teams (fixture full_up) small_state)))
   \<and> success (fst (populate_players (fixture full_up) small_state))
   \<and> contents (players (snd (populate_players (moments_later (fixture full_up))
       (snd (populate_players (fixture full_up) small_state))))) =
     contents (players (snd (populate_players (fixture full_up) small_state)))
   \<and> success (fst (populate_games (fixture full_up) small_state))
   \<and> contents (games (snd (populate_games (moments_later (fixture full_up))
       (snd (populate_games (fixture full_up) small_state))))) =
     contents (games (snd (populate_games (fixture full_up) small_state)))"
proof -
  let ?e = "fixture full_up"
  have "httpGet (moments_later ?e) = httpGet ?e"
    and "dbDeleteErr (moments_later ?e) = dbDeleteErr ?e"
    and "dbInsertErr (moments_later ?e) = dbInsertErr ?e"
    by (simp_all add: moments_later_def)
  moreover have "today (moments_later ?e) = today ?e \<and> parseDate (moments_later ?e) = parseDate ?e"
    by (simp add: moments_later_def today_def fixture_def)
  ultimately show ?thesis
    using refresh_twice_same_contents [of "moments_later ?e" ?e small_state]
      success_full_up [of small_state]
    by simp
qed

lemma populate_players_stamped:
  "pl \<noteq> [] \<Longrightarrow> dbDeleteErr e = None \<Longrightarrow> dbInsertErr e = None \<Longrightarrow>
   httpGet e = players_up pl \<Longrightarrow>
   players (snd (populate_players e s)) = map (stamp e) (enumerate 0 (map playerToInsert pl))"
  by (simp add: populate_players_def fetch_players_split players_up_def ok_body_def unwrap_def
      deleteMany_def insertMany_always)

lemma populate_games_stamped:
  "answer e ''/games'' = Inl m1 \<Longrightarrow> answer e ''/schedule'' = Inl m2 \<Longrightarrow>
   answer e (''/games?date='' @ today e) = Inr (Some dat) \<Longrightarrow> gameList dat = Some gl \<Longrightarrow>
   gl \<noteq> [] \<Longrightarrow> list_all valid_game (map (gameToInsert e) gl) \<Longrightarrow>
   dbDeleteErr e = None \<Longrightarrow> dbInsertErr e = None \<Longrightarrow>
   contents (games (snd (populate_games e s))) = map (gameToInsert e) gl"
  by (simp add: populate_games_contents fetch_games_result)

text \<open>
  C6 as stated fails: \<open>lastUpdated\<close> defaults to \<open>Date.now\<close>, so the records of the second
  run carry another timestamp than those of the first; and a second run of Refresh Games
  on the next day asks another date-qualified endpoint, which may answer other games.
\<close>

theorem refresh_twice_counterexample:
  "map lastUpdated (players (snd (populate_players (fixture (players_up [curry_up])) empty_state)))
     = [1736937000000]
   \<and> map lastUpdated
        (players (snd (populate_players (moments_later (fixture (players_up [curry_up])))
           (snd (populate_players (fixture (players_up [curry_up])) empty_state)))))
     = [1736937060000]
   \<and> map g_apiGameId (contents (games (snd (populate_games (fixture games_by_day) empty_state))))
     = [Some ''15'']
   \<and> map g_apiGameId
        (contents (games (snd (populate_games (next_day (fixture games_by_day))
           (snd (populate_games (fixture games_by_day) empty_state))))))
     = [Some ''16'']"
proof -
  let ?e = "fixture (players_up [curry_up])"
  let ?g = "fixture games_by_day"
  have 1: "players (snd (populate_players ?e s)) =
      map (stamp ?e) (enumerate 0 (map playerToInsert [curry_up]))" for s
    by (rule populate_players_stamped) (simp_all add: fixture_def)
  have 2: "players (snd (populate_players (moments_later ?e) s)) =
      map (stamp (moments_later ?e)) (enumerate 0 (map playerToInsert [curry_up]))" for s
    by (rule populate_players_stamped) (simp_all add: fixture_def moments_later_def)
  have t: "today ?g = ''2025-01-15''" "today (next_day ?g) = ''2025-01-16''"
    by (simp_all add: today_def fixture_def next_day_def)
  have down: "answer ?g ''/games'' = Inl ''Request failed with status code 404''"
    "answer ?g ''/schedule'' = Inl ''Request failed with status code 404''"
    "answer (next_day ?g) ''/games'' = Inl ''Request failed with status code 404''"
    "answer (next_day ?g) ''/schedule'' = Inl ''Request failed with status code 404''"
    by (simp_all add: fixture_def next_day_def games_by_day_def all_down_def unwrap_def)
  have up: "answer ?g (''/games?date='' @ today ?g) =
      Inr (Some (no_lists\<lparr>gameList := Some [game_on ''15'' ''2025-01-15T19:00:00.000Z'']\<rparr>))"
    "answer (next_day ?g) (''/games?date='' @ today (next_day ?g)) =
      Inr (Some (no_lists\<lparr>gameList := Some [game_on ''16'' ''2025-01-16T19:00:00.000Z'']\<rparr>))"
    unfolding t
    by (simp_all add: fixture_def next_day_def games_by_day_def ok_body_def unwrap_def)
  have db: "dbDeleteErr ?g = None" "dbInsertErr ?g = None"
    "dbDeleteErr (next_day ?g) = None" "dbInsertErr (next_day ?g) = None"
    by (simp_all add: fixture_def next_day_def)
  have v: "list_all valid_game (map (gameToInsert ?g) [game_on ''15'' ''2025-01-15T19:00:00.000Z''])"
    "list_all valid_game
       (map (gameToInsert (next_day ?g)) [game_on ''16'' ''2025-01-16T19:00:00.000Z''])"
    by (simp_all add: valid_game_def gameToInsert_def game_on_def newDate_def fixture_def
        next_day_def)
  have 3: "contents (games (snd (populate_games ?g s))) =
      map (gameToInsert ?g) [game_on ''15'' ''2025-01-15T19:00:00.000Z'']" for s
    by (rule populate_games_stamped [OF down(1,2) up(1) _ _ v(1) db(1,2)]) simp_all
  have 4: "contents (games (snd (populate_games (next_day ?g) s))) =
      map (gameToInsert (next_day ?g)) [game_on ''16'' ''2025-01-16T19:00:00.000Z'']" for s
    by (rule populate_games_stamped [OF down(3,4) up(2) _ _ v(2) db(3,4)]) simp_all
  show ?thesis
    unfolding 1 2 3 4
    by (simp add: stamp_def fixture_def moments_later_def gameToInsert_def game_on_def)
qed

end
